theory Spec2Isabelle
  imports Main
begin

section \<open>Python values and string helpers\<close>

text \<open>
  The provider's payloads are JSON.  A decoded JSON value is a Python object: \<open>None\<close>,
  a bool, an int, a str, a list or a dict (an association list, looked up with
  \<open>map_of\<close>).  Floats do not occur in the fields the code reads and are left out.
\<close>

datatype json =
    JNull
  | JBool bool
  | JInt int
  | JStr string
  | JArr "json list"
  | JObj "(string \<times> json) list"

text \<open>Python truthiness (\<open>if x:\<close>, \<open>not x\<close>, \<open>x or y\<close>).\<close>

fun truthy :: "json \<Rightarrow> bool" where
  "truthy JNull = False"
| "truthy (JBool b) = b"
| "truthy (JInt n) = (n \<noteq> 0)"
| "truthy (JStr s) = (s \<noteq> [])"
| "truthy (JArr xs) = (xs \<noteq> [])"
| "truthy (JObj kvs) = (kvs \<noteq> [])"

text \<open>An \<open>Optional[str]\<close> is falsy when it is \<open>None\<close> or the empty string.\<close>

fun truthy_str :: "string option \<Rightarrow> bool" where
  "truthy_str None = False"
| "truthy_str (Some s) = (s \<noteq> [])"

text \<open>The exceptions the code raises, catches or lets through.  \<open>KeyboardInterrupt\<close> and
  \<open>SystemExit\<close> are not subclasses of \<open>Exception\<close>.\<close>

datatype exn =
    ValueError
  | TypeError
  | AttributeError
  | RequestException
  | JSONDecodeError
  | OSError
  | KeyboardInterrupt
  | SystemExit

fun is_Exception :: "exn \<Rightarrow> bool" where
  "is_Exception KeyboardInterrupt = False"
| "is_Exception SystemExit = False"
| "is_Exception _ = True"

section \<open>Python string operations\<close>

text \<open>\<open>s.split(c)\<close> for a one-character separator: never the empty list.\<close>

fun split_char :: "char \<Rightarrow> string \<Rightarrow> string list" where
  "split_char c [] = [[]]"
| "split_char c (x # xs) =
     (if x = c then [] # split_char c xs
      else (case split_char c xs of
              [] \<Rightarrow> [[x]]
            | p # ps \<Rightarrow> (x # p) # ps))"

text \<open>\<open>str.isspace\<close> on ASCII: tab, line feed, vertical tab, form feed, carriage return,
  the separators 28 to 31 and the space.  Strings are byte strings here, so the
  whitespace and the digits beyond ASCII that Python knows are not recognised.\<close>

definition is_space :: "char \<Rightarrow> bool" where
  "is_space c = (c \<in> set [CHR 0x09, CHR 0x0A, CHR 0x0B, CHR 0x0C, CHR 0x0D,
                            CHR 0x1C, CHR 0x1D, CHR 0x1E, CHR 0x1F, CHR '' ''])"

definition strip :: "string \<Rightarrow> string" where
  "strip s = rev (dropWhile is_space (rev (dropWhile is_space s)))"

text \<open>\<open>s.replace(c, '')\<close> for a one-character \<open>c\<close>.\<close>

definition remove_char :: "char \<Rightarrow> string \<Rightarrow> string" where
  "remove_char c s = filter (\<lambda>x. x \<noteq> c) s"

text \<open>Decimal digits, and \<open>str(n)\<close> for an int as an f-string prints it.\<close>

definition digit_table :: "(char \<times> nat) list" where
  "digit_table = [(CHR ''0'', 0), (CHR ''1'', 1), (CHR ''2'', 2), (CHR ''3'', 3), (CHR ''4'', 4),
                  (CHR ''5'', 5), (CHR ''6'', 6), (CHR ''7'', 7), (CHR ''8'', 8), (CHR ''9'', 9)]"

definition digit_char :: "nat \<Rightarrow> char" where
  "digit_char n = ''0123456789'' ! (n mod 10)"

function show_nat :: "nat \<Rightarrow> string" where
  "show_nat n = (if n < 10 then [digit_char n] else show_nat (n div 10) @ [digit_char n])"
  by pat_completeness auto
termination
  by (relation "measure (\<lambda>n. n)") auto

declare show_nat.simps [simp del]

definition show_int :: "int \<Rightarrow> string" where
  "show_int i = (if i < 0 then CHR ''-'' # show_nat (nat (- i)) else show_nat (nat i))"

text \<open>Zero padding to two and to four digits (\<open>%m\<close>, \<open>%d\<close>, \<open>%H\<close>, \<open>%M\<close>, \<open>%S\<close>; \<open>%Y\<close>).\<close>

definition pad2 :: "nat \<Rightarrow> string" where
  "pad2 n = (if n < 10 then CHR ''0'' # show_nat n else show_nat n)"

definition pad4 :: "nat \<Rightarrow> string" where
  "pad4 n = replicate (4 - length (show_nat n)) (CHR ''0'') @ show_nat n"

section \<open>\<open>datetime.strptime\<close> and \<open>strftime\<close> for the format of \<open>dateTime\<close>\<close>

text \<open>
  \<open>strptime\<close> compiles the format into a regular expression, takes the first match in
  the order of a backtracking matcher and fails when the match does not reach the end
  of the string.  A matcher is modelled as the list of its matches in that order.
  For \<open>'%Y-%m-%d %H:%M:%S'\<close> the expression is
  \<^verbatim>\<open>(\d\d\d\d)-(1[0-2]|0[1-9]|[1-9])-(3[0-1]|[1-2]\d|0[1-9]|[1-9]| [1-9])\s+\<close>
  \<^verbatim>\<open>(2[0-3]|[0-1]\d|\d):([0-5]\d|\d):(6[0-1]|[0-5]\d|\d)\<close>.
\<close>

type_synonym 'a rx = "string \<Rightarrow> ('a \<times> string) list"

definition rx_range :: "nat \<Rightarrow> nat \<Rightarrow> nat rx" where
  "rx_range lo hi s =
     (case s of
        [] \<Rightarrow> []
      | c # cs \<Rightarrow>
          (case map_of digit_table c of
             None \<Rightarrow> []
           | Some v \<Rightarrow> if lo \<le> v \<and> v \<le> hi then [(v, cs)] else []))"

definition rx_lit :: "char \<Rightarrow> nat rx" where
  "rx_lit c s = (case s of [] \<Rightarrow> [] | x # xs \<Rightarrow> if x = c then [(0, xs)] else [])"

definition rx_bind :: "'a rx \<Rightarrow> ('a \<Rightarrow> 'b rx) \<Rightarrow> 'b rx" where
  "rx_bind p f s = concat (map (\<lambda>(a, r). f a r) (p s))"

definition rx_ret :: "'a \<Rightarrow> 'a rx" where
  "rx_ret a s = [(a, s)]"

definition rx_alt :: "'a rx \<Rightarrow> 'a rx \<Rightarrow> 'a rx" where
  "rx_alt p q s = p s @ q s"

text \<open>Two digits from the given ranges, read as a number.\<close>

definition rx_two :: "nat \<Rightarrow> nat \<Rightarrow> nat \<Rightarrow> nat \<Rightarrow> nat rx" where
  "rx_two a b c d = rx_bind (rx_range a b) (\<lambda>x. rx_bind (rx_range c d) (\<lambda>y. rx_ret (10 * x + y)))"

definition rx_Y :: "nat rx" where
  "rx_Y = rx_bind (rx_two 0 9 0 9) (\<lambda>h. rx_bind (rx_two 0 9 0 9) (\<lambda>l. rx_ret (100 * h + l)))"

definition rx_m :: "nat rx" where
  "rx_m = rx_alt (rx_two 1 1 0 2) (rx_alt (rx_two 0 0 1 9) (rx_range 1 9))"

definition rx_d :: "nat rx" where
  "rx_d = rx_alt (rx_two 3 3 0 1) (rx_alt (rx_two 1 2 0 9) (rx_alt (rx_two 0 0 1 9)
            (rx_alt (rx_range 1 9) (rx_bind (rx_lit CHR '' '') (\<lambda>_. rx_range 1 9)))))"

definition rx_H :: "nat rx" where
  "rx_H = rx_alt (rx_two 2 2 0 3) (rx_alt (rx_two 0 1 0 9) (rx_range 0 9))"

definition rx_M :: "nat rx" where
  "rx_M = rx_alt (rx_two 0 5 0 9) (rx_range 0 9)"

definition rx_S :: "nat rx" where
  "rx_S = rx_alt (rx_two 6 6 0 1) (rx_alt (rx_two 0 5 0 9) (rx_range 0 9))"

text \<open>\<open>\s+\<close> is greedy: the longest run of whitespace first, then shorter ones.\<close>

definition rx_spaces1 :: "nat rx" where
  "rx_spaces1 s =
     map (\<lambda>k. (0, drop k s)) (rev [1 ..< Suc (length (takeWhile is_space s))])"

record datetime =
  year :: nat
  month :: nat
  day :: nat
  hour :: nat
  minute :: nat
  second :: nat

definition rx_ymd_hms :: "datetime rx" where
  "rx_ymd_hms =
     rx_bind rx_Y (\<lambda>Y. rx_bind (rx_lit CHR ''-'') (\<lambda>_.
     rx_bind rx_m (\<lambda>m. rx_bind (rx_lit CHR ''-'') (\<lambda>_.
     rx_bind rx_d (\<lambda>d. rx_bind rx_spaces1 (\<lambda>_.
     rx_bind rx_H (\<lambda>H. rx_bind (rx_lit CHR '':'') (\<lambda>_.
     rx_bind rx_M (\<lambda>M. rx_bind (rx_lit CHR '':'') (\<lambda>_.
     rx_bind rx_S (\<lambda>S.
       rx_ret \<lparr> year = Y, month = m, day = d, hour = H, minute = M, second = S \<rparr>)))))))))))"

definition is_leap :: "nat \<Rightarrow> bool" where
  "is_leap y = (y mod 4 = 0 \<and> (y mod 100 \<noteq> 0 \<or> y mod 400 = 0))"

definition days_in_month :: "nat \<Rightarrow> nat \<Rightarrow> nat" where
  "days_in_month y m =
     (if m = 2 then (if is_leap y then 29 else 28)
      else if m \<in> set [4, 6, 9, 11] then 30 else 31)"

text \<open>The \<open>datetime\<close> constructor rejects the year 0, a day the month does not have and
  the leap seconds 60 and 61 that the expression admits.\<close>

definition valid_datetime :: "datetime \<Rightarrow> bool" where
  "valid_datetime dt =
     (1 \<le> year dt \<and> 1 \<le> month dt \<and> month dt \<le> 12 \<and> 1 \<le> day dt \<and>
      day dt \<le> days_in_month (year dt) (month dt) \<and>
      hour dt \<le> 23 \<and> minute dt \<le> 59 \<and> second dt \<le> 59)"

definition strptime_ymd_hms :: "string \<Rightarrow> exn + datetime" where
  "strptime_ymd_hms s =
     (case rx_ymd_hms s of
        [] \<Rightarrow> Inl ValueError
      | (dt, rest) # _ \<Rightarrow>
          if rest \<noteq> [] then Inl ValueError
          else if valid_datetime dt then Inr dt else Inl ValueError)"

text \<open>\<open>dt.strftime('%Y-%m-%d_%H-%M-%S')\<close>; the year is printed with four digits.\<close>

definition strftime_file :: "datetime \<Rightarrow> string" where
  "strftime_file dt =
     pad4 (year dt) @ ''-'' @ pad2 (month dt) @ ''-'' @ pad2 (day dt) @ ''_'' @
     pad2 (hour dt) @ ''-'' @ pad2 (minute dt) @ ''-'' @ pad2 (second dt)"

section \<open>The CloudPBX call record (rostelcom/call\_records\_watcher.py)\<close>

text \<open>
  The attributes \<open>CallRecord.__init__\<close> sets.  \<open>id\<close> is always a str (\<open>str(data.get('id', ''))\<close>);
  \<open>record_call_id\<close> is \<open>None\<close> when the call has no recording.
\<close>

record CallRecord =
  id_rec :: string
  date_time :: string
  direction_type :: string
  direction_title :: string
  caller_number :: string
  callee_number :: string
  has_record :: bool
  record_call_id :: "string option"
  duration_seconds :: int

definition is_incoming :: "CallRecord \<Rightarrow> bool" where
  "is_incoming r = (direction_type r \<in> set [''group'', ''group_skip''])"

definition is_answered :: "CallRecord \<Rightarrow> bool" where
  "is_answered r = has_record r"

text \<open>
  \<open>get_readable_filename\<close>.  The body of the \<open>try\<close>: the text before the first \<open>+\<close>,
  stripped, is parsed; the caller number loses every \<open>+\<close> and space and is cut to 15
  characters.  Whatever \<open>Exception\<close> the body raises, the handler returns
  \<open>call_{id}.mp3\<close>.
\<close>

definition parse_date_time :: "CallRecord \<Rightarrow> exn + datetime" where
  "parse_date_time r =
     (case split_char CHR ''+'' (date_time r) of
        [] \<Rightarrow> Inl ValueError
      | p # _ \<Rightarrow> strptime_ymd_hms (strip p))"

definition caller_clean :: "CallRecord \<Rightarrow> string" where
  "caller_clean r = take 15 (remove_char CHR '' '' (remove_char CHR ''+'' (caller_number r)))"

definition readable_filename_body :: "CallRecord \<Rightarrow> exn + string" where
  "readable_filename_body r =
     (case parse_date_time r of
        Inl e \<Rightarrow> Inl e
      | Inr dt \<Rightarrow>
          Inr (strftime_file dt @ ''_'' @ caller_clean r @ ''_'' @
               show_int (duration_seconds r) @ ''sec.mp3''))"

definition get_readable_filename :: "CallRecord \<Rightarrow> exn + string" where
  "get_readable_filename r =
     (case readable_filename_body r of
        Inr filename \<Rightarrow> Inr filename
      | Inl e \<Rightarrow> if is_Exception e then Inr (''call_'' @ id_rec r @ ''.mp3'') else Inl e)"

section \<open>The downloader's settings and the filter chain\<close>

record settings =
  city_name :: string
  login_cfg :: string
  password_cfg :: string
  domain_cfg :: string
  download_dir :: string
  min_duration :: int
  only_incoming :: bool

text \<open>\<open>filter_records\<close>: the \<open>for\<close> loop with its three \<open>continue\<close> guards, appending to
  \<open>filtered\<close>.\<close>

fun filter_loop :: "settings \<Rightarrow> CallRecord list \<Rightarrow> CallRecord list \<Rightarrow> CallRecord list" where
  "filter_loop cfg filtered [] = filtered"
| "filter_loop cfg filtered (r # rs) =
     (if \<not> is_answered r then filter_loop cfg filtered rs
      else if duration_seconds r < min_duration cfg then filter_loop cfg filtered rs
      else if only_incoming cfg \<and> \<not> is_incoming r then filter_loop cfg filtered rs
      else filter_loop cfg (filtered @ [r]) rs)"

definition filter_records :: "settings \<Rightarrow> CallRecord list \<Rightarrow> CallRecord list" where
  "filter_records cfg records = filter_loop cfg [] records"

text \<open>A record with a recording of the given duration and direction, for the examples.\<close>

definition rec_with :: "int \<Rightarrow> string \<Rightarrow> CallRecord" where
  "rec_with d dir =
     \<lparr> id_rec = ''1'', date_time = ''2025-01-15 14:30:45+05:00'', direction_type = dir,
       direction_title = [], caller_number = ''+79991234567'', callee_number = ''79991234568'',
       has_record = True, record_call_id = Some ''1'', duration_seconds = d \<rparr>"

definition cfg_with :: "int \<Rightarrow> bool \<Rightarrow> settings" where
  "cfg_with m inc =
     \<lparr> city_name = ''Unknown'', login_cfg = ''user'', password_cfg = ''secret'',
       domain_cfg = ''d.rt.ru'', download_dir = ''./downloads'',
       min_duration = m, only_incoming = inc \<rparr>"

text \<open>The predicate the filter chain is compared with.\<close>

definition passes :: "settings \<Rightarrow> CallRecord \<Rightarrow> bool" where
  "passes cfg r =
     (has_record r \<and> min_duration cfg \<le> duration_seconds r \<and>
      (only_incoming cfg \<longrightarrow> is_incoming r))"



section \<open>The provider as seen through \<open>requests.Session\<close>\<close>

text \<open>
  A request carries what the code puts into it: the method, the URL as the pair of
  \<open>BASE_URL\<close> and endpoint that the f-string joins, the query or form parameters, the
  JSON body, and the session's \<open>Authorization\<close> header (the token after \<open>Bearer\<close>,
  \<open>None\<close> while the header is not set).
\<close>

datatype http_method = GET | POST

record request =
  rq_method :: http_method
  rq_base :: json
  rq_path :: string
  rq_params :: "(string \<times> string) list"
  rq_body :: json
  rq_bearer :: "json option"

text \<open>A response: \<open>json_body\<close> is \<open>None\<close> when \<open>response.json()\<close> raises; \<open>resp_url\<close> is
  the URL after redirects.\<close>

record response =
  status_code :: int
  json_body :: "json option"
  content :: string
  resp_url :: string

datatype outcome = Resp response | Raises exn

text \<open>The provider answers a request knowing every request sent so far, the last one
  being the one it answers.  The list of sent requests is the model's record of what
  reached the network.\<close>

type_synonym server = "request list \<Rightarrow> outcome"

text \<open>Library functions the code calls and the model does not spell out:
  \<open>base64.urlsafe_b64decode\<close>, \<open>json.loads\<close> (\<open>None\<close> when they raise), the list
  comprehension \<open>[CallRecord(c) for c in calls_data]\<close>, and whether \<open>open(path, 'wb')\<close>
  succeeds.\<close>

record pylib =
  urlsafe_b64decode :: "string \<Rightarrow> string option"
  json_loads :: "string \<Rightarrow> json option"
  decode_calls :: "json \<Rightarrow> exn + CallRecord list"
  can_write :: "string \<Rightarrow> bool"

text \<open>\<open>d.get(k)\<close> on a decoded JSON object: \<open>None\<close> when the key is missing.\<close>

definition dict_get :: "(string \<times> json) list \<Rightarrow> string \<Rightarrow> json" where
  "dict_get kvs k = (case map_of kvs k of None \<Rightarrow> JNull | Some v \<Rightarrow> v)"

text \<open>\<open>x[:20]\<close> works on a str and on a list and raises on every other JSON value.\<close>

fun sliceable :: "json \<Rightarrow> bool" where
  "sliceable (JStr s) = True"
| "sliceable (JArr xs) = True"
| "sliceable _ = False"

text \<open>\<open>a or b\<close> on two optional strings.\<close>

definition py_or :: "string option \<Rightarrow> string option \<Rightarrow> string option" where
  "py_or a b = (if truthy_str a then a else b)"

text \<open>The str inside an optional string that was tested to be there.\<close>

definition opt_str :: "string option \<Rightarrow> string" where
  "opt_str x = (case x of None \<Rightarrow> [] | Some s \<Rightarrow> s)"

section \<open>CloudPBXAuth (rostelcom/cloudpbx\_auth.py)\<close>

record CloudPBXAuth =
  BASE_URL :: json
  login :: "string option"
  domain :: "string option"
  token :: json
  refresh_token :: json
  user_id :: json
  domain_id :: json
  is_authenticated :: bool
  authorization :: "json option"

definition default_base_url :: json where
  "default_base_url = JStr ''https://p2.cloudpbx.rt.ru/webapi''"

definition CloudPBXAuth_init :: "string option \<Rightarrow> string option \<Rightarrow> CloudPBXAuth" where
  "CloudPBXAuth_init l d =
     \<lparr> BASE_URL = default_base_url, login = l, domain = d, token = JNull,
       refresh_token = JNull, user_id = JNull, domain_id = JNull,
       is_authenticated = False, authorization = None \<rparr>"

text \<open>
  \<open>_extract_base_url_from_token\<close>.  Every exception of the body is caught and gives
  \<open>None\<close>: a token that is no str has no \<open>split\<close>, the decoders may raise, a payload that
  is no dict has no \<open>get\<close>.
\<close>

definition pad_base64 :: "string \<Rightarrow> string" where
  "pad_base64 payload_part =
     (let padding = length payload_part mod 4
      in if padding \<noteq> 0 then payload_part @ replicate (4 - padding) (CHR ''='')
         else payload_part)"

definition extract_base_url_from_token :: "pylib \<Rightarrow> json \<Rightarrow> json option" where
  "extract_base_url_from_token lib tok =
     (case tok of
        JStr t \<Rightarrow>
          (case split_char CHR ''.'' t of
             p0 # payload_part # _ \<Rightarrow>
               (case urlsafe_b64decode lib (pad_base64 payload_part) of
                  None \<Rightarrow> None
                | Some payload_bytes \<Rightarrow>
                    (case json_loads lib payload_bytes of
                       Some (JObj payload_json) \<Rightarrow>
                         (let iss = dict_get payload_json ''iss''
                          in if truthy iss then Some iss else None)
                     | _ \<Rightarrow> None))
           | _ \<Rightarrow> None)
      | _ \<Rightarrow> None)"

text \<open>Sending through the session: the request is appended to what was sent and the
  provider answers.\<close>

definition mk_request ::
  "http_method \<Rightarrow> json \<Rightarrow> string \<Rightarrow> (string \<times> string) list \<Rightarrow> json \<Rightarrow> CloudPBXAuth \<Rightarrow> request" where
  "mk_request m base path params body a =
     \<lparr> rq_method = m, rq_base = base, rq_path = path, rq_params = params, rq_body = body,
       rq_bearer = authorization a \<rparr>"

text \<open>The form that \<open>authenticate\<close> posts to \<open>AUTH_ENDPOINT\<close>.\<close>

definition auth_request ::
  "string option \<Rightarrow> string option \<Rightarrow> string option \<Rightarrow> CloudPBXAuth \<Rightarrow> request" where
  "auth_request l password d a =
     mk_request POST (BASE_URL a) ''/auth''
       [(''username'', opt_str l), (''password'', opt_str password), (''domain'', opt_str d)]
       JNull a"

text \<open>
  \<open>authenticate\<close>.  \<open>ValueError\<close> is raised before the \<open>try\<close>; inside it every
  \<open>Exception\<close> clears the flag and gives \<open>False\<close>.  After a 200 the fields are stored and
  the flag set, the endpoint is taken from the token, the header is set, and the last
  log line slices the token: a token that cannot be sliced raises there.
\<close>

definition authenticate ::
  "pylib \<Rightarrow> server \<Rightarrow> string option \<Rightarrow> string option \<Rightarrow> string option \<Rightarrow>
   CloudPBXAuth \<times> request list \<Rightarrow> (exn + bool) \<times> CloudPBXAuth \<times> request list" where
  "authenticate lib srv login_arg password domain_arg st =
     (case st of (a, sent) \<Rightarrow>
      let l = py_or login_arg (login a); d = py_or domain_arg (domain a) in
      if \<not> (truthy_str l \<and> truthy_str password \<and> truthy_str d) then (Inl ValueError, a, sent)
      else
        let sent1 = sent @ [auth_request l password d a]
        in case srv sent1 of
             Raises e \<Rightarrow>
               if is_Exception e then (Inr False, a\<lparr>is_authenticated := False\<rparr>, sent1)
               else (Inl e, a, sent1)
           | Resp r \<Rightarrow>
               if status_code r = 200 then
                 (case json_body r of
                    Some (JObj data) \<Rightarrow>
                      let a1 = a\<lparr> token := dict_get data ''token'',
                                  refresh_token := dict_get data ''refresh_token'',
                                  user_id := dict_get data ''user_id'',
                                  domain_id := dict_get data ''domain_id'',
                                  is_authenticated := True \<rparr>;
                          detected_base_url = extract_base_url_from_token lib (token a1);
                          a2 = (case detected_base_url of
                                  Some u \<Rightarrow> if truthy u \<and> u \<noteq> BASE_URL a1 then a1\<lparr>BASE_URL := u\<rparr> else a1
                                | None \<Rightarrow> a1);
                          a3 = a2\<lparr>authorization := Some (token a2)\<rparr>
                      in if sliceable (token a3) then (Inr True, a3, sent1)
                         else (Inr False, a3\<lparr>is_authenticated := False\<rparr>, sent1)
                  | _ \<Rightarrow> (Inr False, a\<lparr>is_authenticated := False\<rparr>, sent1))
               else (Inr False, a\<lparr>is_authenticated := False\<rparr>, sent1))"

text \<open>\<open>refresh_access_token\<close>: no request without a refresh token; every \<open>Exception\<close>
  gives \<open>False\<close>.\<close>

definition refresh_request :: "CloudPBXAuth \<Rightarrow> request" where
  "refresh_request a =
     mk_request POST (BASE_URL a) ''/auth/refresh_token'' []
       (JObj [(''refresh_token'', refresh_token a)]) a"

definition refresh_access_token ::
  "server \<Rightarrow> CloudPBXAuth \<times> request list \<Rightarrow> (exn + bool) \<times> CloudPBXAuth \<times> request list" where
  "refresh_access_token srv st =
     (case st of (a, sent) \<Rightarrow>
      if \<not> truthy (refresh_token a) then (Inr False, a, sent)
      else
        let sent1 = sent @ [refresh_request a]
        in case srv sent1 of
             Raises e \<Rightarrow> if is_Exception e then (Inr False, a, sent1) else (Inl e, a, sent1)
           | Resp r \<Rightarrow>
               if status_code r = 200 then
                 (case json_body r of
                    Some (JObj data) \<Rightarrow>
                      let a1 = a\<lparr>token := dict_get data ''token''\<rparr>
                      in (Inr True, a1\<lparr>authorization := Some (token a1)\<rparr>, sent1)
                  | _ \<Rightarrow> (Inr False, a, sent1))
               else (Inr False, a, sent1))"

definition logout :: "CloudPBXAuth \<Rightarrow> CloudPBXAuth" where
  "logout a = a\<lparr> token := JNull, refresh_token := JNull, user_id := JNull, domain_id := JNull,
                 is_authenticated := False, authorization := None \<rparr>"

text \<open>
  \<open>get\<close>: the guard, the request, and on a 401 the same request once more; on a second
  401 the token is renewed and, if that worked, the request is sent a third time with
  the new header, else the second response is returned.  An exception of a request is
  raised again.
\<close>

definition get ::
  "server \<Rightarrow> string \<Rightarrow> (string \<times> string) list \<Rightarrow> CloudPBXAuth \<times> request list \<Rightarrow>
   (exn + response) \<times> CloudPBXAuth \<times> request list" where
  "get srv endpoint params st =
     (case st of (a, sent) \<Rightarrow>
      if \<not> is_authenticated a then (Inl ValueError, a, sent)
      else
        let url = BASE_URL a;
            sent1 = sent @ [mk_request GET url endpoint params JNull a]
        in case srv sent1 of
             Raises e \<Rightarrow> (Inl e, a, sent1)
           | Resp response \<Rightarrow>
               if status_code response = 401 then
                 (let sent2 = sent1 @ [mk_request GET url endpoint params JNull a]
                  in case srv sent2 of
                       Raises e \<Rightarrow> (Inl e, a, sent2)
                     | Resp response_retry \<Rightarrow>
                         if status_code response_retry = 401 then
                           (case refresh_access_token srv (a, sent2) of
                              (Inl e, a', sent3) \<Rightarrow> (Inl e, a', sent3)
                            | (Inr True, a', sent3) \<Rightarrow>
                                (let sent4 = sent3 @ [mk_request GET url endpoint params JNull a']
                                 in case srv sent4 of
                                      Raises e \<Rightarrow> (Inl e, a', sent4)
                                    | Resp r3 \<Rightarrow> (Inr r3, a', sent4))
                            | (Inr False, a', sent3) \<Rightarrow> (Inr response_retry, a', sent3))
                         else (Inr response_retry, a, sent2))
               else (Inr response, a, sent1))"

text \<open>\<open>post\<close>: the guard, the request, and on a 401 the renewal at once, followed by one
  more request if it worked.\<close>

definition post ::
  "server \<Rightarrow> string \<Rightarrow> json \<Rightarrow> CloudPBXAuth \<times> request list \<Rightarrow>
   (exn + response) \<times> CloudPBXAuth \<times> request list" where
  "post srv endpoint body st =
     (case st of (a, sent) \<Rightarrow>
      if \<not> is_authenticated a then (Inl ValueError, a, sent)
      else
        let url = BASE_URL a;
            sent1 = sent @ [mk_request POST url endpoint [] body a]
        in case srv sent1 of
             Raises e \<Rightarrow> (Inl e, a, sent1)
           | Resp response \<Rightarrow>
               if status_code response = 401 then
                 (case refresh_access_token srv (a, sent1) of
                    (Inl e, a', sent2) \<Rightarrow> (Inl e, a', sent2)
                  | (Inr True, a', sent2) \<Rightarrow>
                      (let sent3 = sent2 @ [mk_request POST url endpoint [] body a']
                       in case srv sent3 of
                            Raises e \<Rightarrow> (Inl e, a', sent3)
                          | Resp r2 \<Rightarrow> (Inr r2, a', sent3))
                  | (Inr False, a', sent2) \<Rightarrow> (Inr response, a', sent2))
               else (Inr response, a, sent1))"


section \<open>DatabaseManager (rostelcom/call\_records\_watcher.py)\<close>

text \<open>
  The table \<open>downloaded_records\<close>, a row per list element; \<open>id\<close> is its primary key.
  \<open>downloaded_at\<close>, which SQLite fills in, is left out.  \<open>INSERT OR REPLACE\<close> deletes the
  rows whose key equals the new row's and inserts the new row.
\<close>

record db_row =
  row_id :: string
  row_call_id :: "string option"
  row_caller :: string
  row_duration_seconds :: int
  row_date_time :: string
  row_local_path :: string
  row_file_size :: nat
  row_city_name :: "string option"
  row_domain :: "string option"

definition insert_or_replace :: "('r \<Rightarrow> string) \<Rightarrow> 'r \<Rightarrow> 'r list \<Rightarrow> 'r list" where
  "insert_or_replace key row tbl = filter (\<lambda>x. key x \<noteq> key row) tbl @ [row]"

text \<open>\<open>SELECT id FROM downloaded_records WHERE call_id = ?\<close>: a \<open>NULL\<close> parameter
  matches no row.\<close>

definition is_record_downloaded :: "db_row list \<Rightarrow> string option \<Rightarrow> bool" where
  "is_record_downloaded tbl call_id =
     (case call_id of
        None \<Rightarrow> False
      | Some c \<Rightarrow> Some c \<in> set (map row_call_id tbl))"

definition mark_record_downloaded ::
  "db_row list \<Rightarrow> CallRecord \<Rightarrow> string \<Rightarrow> nat \<Rightarrow> string option \<Rightarrow> string option \<Rightarrow> db_row list" where
  "mark_record_downloaded tbl r local_path file_size city domain_name =
     insert_or_replace row_id
       \<lparr> row_id = id_rec r, row_call_id = record_call_id r, row_caller = caller_number r,
         row_duration_seconds = duration_seconds r, row_date_time = date_time r,
         row_local_path = local_path, row_file_size = file_size,
         row_city_name = city, row_domain = domain_name \<rparr> tbl"

text \<open>\<open>get_stats\<close>: the number of rows and the sum of the file sizes.\<close>

definition get_stats :: "db_row list \<Rightarrow> nat \<times> nat" where
  "get_stats tbl = (length tbl, sum_list (map row_file_size tbl))"

section \<open>CallRecordsDownloader (rostelcom/call\_records\_watcher.py)\<close>

text \<open>What one downloader works on: its session, the requests that reached the
  provider, the files under the download directory (path and content) and the ledger.\<close>

record world =
  w_auth :: CloudPBXAuth
  w_sent :: "request list"
  w_files :: "(string \<times> string) list"
  w_db :: "db_row list"

definition os_path_join :: "string \<Rightarrow> string \<Rightarrow> string" where
  "os_path_join a b =
     (if b \<noteq> [] \<and> hd b = CHR ''/'' then b
      else if a = [] \<or> last a = CHR ''/'' then a @ b
      else a @ ''/'' @ b)"

definition write_file :: "string \<Rightarrow> string \<Rightarrow> (string \<times> string) list \<Rightarrow> (string \<times> string) list" where
  "write_file path bytes fs = (path, bytes) # filter (\<lambda>(p, _). p \<noteq> path) fs"

definition getsize :: "(string \<times> string) list \<Rightarrow> string \<Rightarrow> exn + nat" where
  "getsize fs path = (case map_of fs path of None \<Rightarrow> Inl OSError | Some bytes \<Rightarrow> Inr (length bytes))"

text \<open>The downloader's own \<open>authenticate\<close>: any \<open>Exception\<close> of the session's
  \<open>authenticate\<close> gives \<open>False\<close>.\<close>

definition downloader_authenticate ::
  "pylib \<Rightarrow> server \<Rightarrow> settings \<Rightarrow> world \<Rightarrow> (exn + bool) \<times> world" where
  "downloader_authenticate lib srv cfg w =
     (case authenticate lib srv None (Some (password_cfg cfg)) None (w_auth w, w_sent w) of
        (Inr ok, a', s') \<Rightarrow> (Inr ok, w\<lparr>w_auth := a', w_sent := s'\<rparr>)
      | (Inl e, a', s') \<Rightarrow>
          if is_Exception e then (Inr False, w\<lparr>w_auth := a', w_sent := s'\<rparr>)
          else (Inl e, w\<lparr>w_auth := a', w_sent := s'\<rparr>))"

text \<open>\<open>get_call_history\<close>: the window is \<open>now - hours_back\<close> to \<open>now\<close>, given here as
  the two formatted strings.  Every \<open>Exception\<close> gives the empty list.\<close>

definition history_params :: "string \<Rightarrow> string \<Rightarrow> (string \<times> string) list" where
  "history_params date_start date_end =
     [(''dateStart'', date_start), (''dateEnd'', date_end), (''offset'', ''0''), (''count'', ''100'')]"

definition get_call_history ::
  "pylib \<Rightarrow> server \<Rightarrow> string \<Rightarrow> string \<Rightarrow> world \<Rightarrow> (exn + CallRecord list) \<times> world" where
  "get_call_history lib srv date_start date_end w =
     (case get srv ''/domain/call_history'' (history_params date_start date_end) (w_auth w, w_sent w) of
        (Inl e, a', s') \<Rightarrow>
          if is_Exception e then (Inr [], w\<lparr>w_auth := a', w_sent := s'\<rparr>)
          else (Inl e, w\<lparr>w_auth := a', w_sent := s'\<rparr>)
      | (Inr response, a', s') \<Rightarrow>
          (let w1 = w\<lparr>w_auth := a', w_sent := s'\<rparr> in
           if status_code response = 200 then
             (case json_body response of
                Some (JObj data) \<Rightarrow>
                  (case decode_calls lib
                          (case map_of data ''data'' of None \<Rightarrow> JArr [] | Some calls_data \<Rightarrow> calls_data) of
                     Inr records \<Rightarrow> (Inr records, w1)
                   | Inl e \<Rightarrow> if is_Exception e then (Inr [], w1) else (Inl e, w1))
              | _ \<Rightarrow> (Inr [], w1))
           else (Inr [], w1)))"

text \<open>\<open>download_record\<close>: nothing is requested for a record without \<open>record_call_id\<close>;
  on a 200 the payload is written under the readable name; every \<open>Exception\<close> gives
  \<open>None\<close>.\<close>

definition record_endpoint :: "string \<Rightarrow> string" where
  "record_endpoint cid = ''/domain/call_history/'' @ cid @ ''/record''"

definition download_record ::
  "pylib \<Rightarrow> server \<Rightarrow> settings \<Rightarrow> CallRecord \<Rightarrow> world \<Rightarrow> (exn + string option) \<times> world" where
  "download_record lib srv cfg r w =
     (if \<not> truthy_str (record_call_id r) then (Inr None, w)
      else
        case get srv (record_endpoint (opt_str (record_call_id r))) [] (w_auth w, w_sent w) of
          (Inl e, a', s') \<Rightarrow>
            if is_Exception e then (Inr None, w\<lparr>w_auth := a', w_sent := s'\<rparr>)
            else (Inl e, w\<lparr>w_auth := a', w_sent := s'\<rparr>)
        | (Inr response, a', s') \<Rightarrow>
            (let w1 = w\<lparr>w_auth := a', w_sent := s'\<rparr> in
             if status_code response = 200 then
               (case get_readable_filename r of
                  Inl e \<Rightarrow> if is_Exception e then (Inr None, w1) else (Inl e, w1)
                | Inr filename \<Rightarrow>
                    (let filepath = os_path_join (download_dir cfg) filename in
                     if can_write lib filepath
                     then (Inr (Some filepath),
                           w1\<lparr>w_files := write_file filepath (content response) (w_files w1)\<rparr>)
                     else (Inr None, w1)))
             else (Inr None, w1)))"

text \<open>\<open>process_new_records\<close>: the loop over the records with its counter.  A record
  whose \<open>record_call_id\<close> is found in the column \<open>call_id\<close> is skipped; a downloaded one
  is written to the ledger at once.\<close>

fun process_loop ::
  "pylib \<Rightarrow> server \<Rightarrow> settings \<Rightarrow> CallRecord list \<Rightarrow> nat \<Rightarrow> world \<Rightarrow> (exn + nat) \<times> world" where
  "process_loop lib srv cfg [] downloaded_count w = (Inr downloaded_count, w)"
| "process_loop lib srv cfg (r # rs) downloaded_count w =
     (if is_record_downloaded (w_db w) (record_call_id r)
      then process_loop lib srv cfg rs downloaded_count w
      else
        case download_record lib srv cfg r w of
          (Inl e, w1) \<Rightarrow> (Inl e, w1)
        | (Inr filepath, w1) \<Rightarrow>
            if truthy_str filepath then
              (case getsize (w_files w1) (opt_str filepath) of
                 Inl e \<Rightarrow> (Inl e, w1)
               | Inr file_size \<Rightarrow>
                   process_loop lib srv cfg rs (downloaded_count + 1)
                     (w1\<lparr>w_db := mark_record_downloaded (w_db w1) r (opt_str filepath) file_size
                                     (Some (city_name cfg)) (Some (domain_cfg cfg))\<rparr>))
            else process_loop lib srv cfg rs downloaded_count w1)"

definition process_new_records ::
  "pylib \<Rightarrow> server \<Rightarrow> settings \<Rightarrow> CallRecord list \<Rightarrow> world \<Rightarrow> (exn + nat) \<times> world" where
  "process_new_records lib srv cfg records w = process_loop lib srv cfg records 0 w"

text \<open>\<open>run_once\<close>: authenticate, fetch, filter, process.\<close>

definition run_once ::
  "pylib \<Rightarrow> server \<Rightarrow> settings \<Rightarrow> string \<Rightarrow> string \<Rightarrow> world \<Rightarrow> (exn + nat) \<times> world" where
  "run_once lib srv cfg date_start date_end w =
     (case downloader_authenticate lib srv cfg w of
        (Inl e, w1) \<Rightarrow> (Inl e, w1)
      | (Inr False, w1) \<Rightarrow> (Inr 0, w1)
      | (Inr True, w1) \<Rightarrow>
          (case get_call_history lib srv date_start date_end w1 of
             (Inl e, w2) \<Rightarrow> (Inl e, w2)
           | (Inr records, w2) \<Rightarrow>
               if records = [] then (Inr 0, w2)
               else
                 let filtered = filter_records cfg records in
                 if filtered = [] then (Inr 0, w2)
                 else process_new_records lib srv cfg filtered w2))"






section \<open>The poll loop of the CloudPBX downloader\<close>

text \<open>
  \<open>run_continuous\<close> is \<open>while True\<close>.  The model runs a given number of iterations and
  reports \<open>Running\<close> when they are used up with the loop still going; it records what
  each iteration did.  The cycle and the sleep are operations on any state: the cycle
  returns the number of downloads or raises, the sleep returns or is interrupted.
\<close>

datatype loop_status = Running | Finished | Exit nat | Uncaught exn

datatype loop_event = Ran nat | Failed exn | Slept nat | Logged_out | Notified exn

record 's ros_ops =
  ros_run_once :: "'s \<Rightarrow> (exn + nat) \<times> 's"
  ros_sleep :: "nat \<Rightarrow> 's \<Rightarrow> exn option \<times> 's"

text \<open>What follows a raise that reaches the outer handlers of \<open>run_continuous\<close>:
  \<open>KeyboardInterrupt\<close> logs out and returns, an \<open>Exception\<close> logs out and exits with
  code 1, \<open>SystemExit\<close> is not handled.\<close>

definition ros_outer :: "exn \<Rightarrow> loop_event list \<Rightarrow> loop_status \<times> loop_event list" where
  "ros_outer e tr =
     (if e = KeyboardInterrupt then (Finished, tr @ [Logged_out])
      else if is_Exception e then (Exit 1, tr @ [Logged_out])
      else (Uncaught e, tr))"

fun run_continuous ::
  "'s ros_ops \<Rightarrow> nat \<Rightarrow> nat \<Rightarrow> 's \<Rightarrow> loop_event list \<Rightarrow> loop_status \<times> 's \<times> loop_event list" where
  "run_continuous ops check_interval 0 s tr = (Running, s, tr)"
| "run_continuous ops check_interval (Suc n) s tr =
     (case ros_run_once ops s of
        (Inl e, s1) \<Rightarrow>
          if is_Exception e then
            (case ros_sleep ops check_interval s1 of
               (None, s2) \<Rightarrow> run_continuous ops check_interval n s2 (tr @ [Failed e, Slept check_interval])
             | (Some e', s2) \<Rightarrow>
                 (case ros_outer e' (tr @ [Failed e]) of (st, tr') \<Rightarrow> (st, s2, tr')))
          else (case ros_outer e (tr @ [Failed e]) of (st, tr') \<Rightarrow> (st, s1, tr'))
      | (Inr downloaded, s1) \<Rightarrow>
          (case ros_sleep ops check_interval s1 of
             (None, s2) \<Rightarrow> run_continuous ops check_interval n s2 (tr @ [Ran downloaded, Slept check_interval])
           | (Some e', s2) \<Rightarrow>
               (case ros_outer e' (tr @ [Ran downloaded]) of (st, tr') \<Rightarrow> (st, s2, tr'))))"

text \<open>The loop of the downloader itself: its cycle is \<open>run_once\<close> against the provider,
  with the two strings of the time window held fixed, and its sleep is not
  interrupted.\<close>

definition downloader_ops ::
  "pylib \<Rightarrow> server \<Rightarrow> settings \<Rightarrow> string \<Rightarrow> string \<Rightarrow> world ros_ops" where
  "downloader_ops lib srv cfg date_start date_end =
     \<lparr> ros_run_once = run_once lib srv cfg date_start date_end,
       ros_sleep = (\<lambda>i w. (None, w)) \<rparr>"

text \<open>The number of sleeps in a trace: the cycles after which the loop went on.\<close>

fun is_sleep :: "loop_event \<Rightarrow> bool" where
  "is_sleep (Slept n) = True"
| "is_sleep _ = False"

definition sleeps :: "loop_event list \<Rightarrow> nat" where
  "sleeps tr = length (filter is_sleep tr)"

section \<open>The Stranzit watcher (svyaztransit/call\_records\_watcher.py)\<close>

record StzCallRecord =
  stz_id :: string
  start_time :: string
  end_time :: string
  service_name :: string
  call_direction :: string
  file_name :: string
  full_file_name :: string
  call_parties :: string
  stz_duration_seconds :: int
  record_count :: int
  server_ip :: string
  root_folder :: string

text \<open>Library calls of the watcher: \<open>int(s)\<close>, \<open>datetime.fromtimestamp(ms / 1000)\<close>
  printed in local time, BeautifulSoup's search for the input \<open>callRecords\<close> with its
  \<open>value\<close>, and \<open>json.loads\<close> followed by \<open>CallRecord(data)\<close> for each item.\<close>

record stzlib =
  parse_int :: "string \<Rightarrow> int option"
  timestamp_str :: "int \<Rightarrow> string option"
  find_call_records :: "string \<Rightarrow> string option"
  decode_records :: "string \<Rightarrow> exn + StzCallRecord list"



record stz_row =
  srow_id :: string
  srow_file_name :: string
  srow_start_time :: string
  srow_call_direction :: string
  srow_duration_seconds :: int
  srow_local_path :: string

definition stz_is_record_downloaded :: "stz_row list \<Rightarrow> string \<Rightarrow> bool" where
  "stz_is_record_downloaded tbl local_path = (local_path \<in> set (map srow_local_path tbl))"


text \<open>The session of \<open>StranzitAuth\<close>: its flag; the cookies live with the provider.\<close>

record StranzitAuth =
  stz_username :: "string option"
  stz_is_authenticated :: bool

text \<open>\<open>get_filtered_records\<close>: the default parameters, overwritten from the filters,
  are posted through \<open>self.auth.session\<close>; \<open>JSONDecodeError\<close> gives the empty list.\<close>

definition default_params :: "(string \<times> string) list" where
  "default_params =
     [(''StartDateTimeStr'', ''14.09.2025 00:00''), (''EndDateTimeStr'', ''21.09.2025 23:59''),
      (''PhoneNumberPart'', []), (''CallDirection'', ''0''), (''CallDurationExpression'', ''0''),
      (''CallDuration'', ''00:00:00''), (''RecordsPerPage'', ''50''), (''PageNumber'', ''1''),
      (''ShortCodesJson'', ''{}'')]"

definition set_param :: "string \<Rightarrow> string \<Rightarrow> (string \<times> string) list \<Rightarrow> (string \<times> string) list" where
  "set_param k v ps = map (\<lambda>(k', v'). if k' = k then (k', v) else (k', v')) ps"

definition filter_keys :: "(string \<times> string) list" where
  "filter_keys =
     [(''start_date'', ''StartDateTimeStr''), (''end_date'', ''EndDateTimeStr''),
      (''phone_number'', ''PhoneNumberPart''), (''direction'', ''CallDirection''),
      (''duration_op'', ''CallDurationExpression''), (''duration'', ''CallDuration''),
      (''records_per_page'', ''RecordsPerPage''), (''page'', ''PageNumber'')]"

definition query_params :: "(string \<times> string) list \<Rightarrow> (string \<times> string) list" where
  "query_params filters =
     foldl (\<lambda>params (fk, pk). case map_of filters fk of None \<Rightarrow> params | Some v \<Rightarrow> set_param pk v params)
       default_params filter_keys"

definition index_request :: "(string \<times> string) list \<Rightarrow> request" where
  "index_request filters =
     \<lparr> rq_method = POST, rq_base = JStr ''https://lk.stranzit.ru'', rq_path = ''/CallRecords/IndexGet'',
       rq_params = query_params filters, rq_body = JNull, rq_bearer = None \<rparr>"

definition get_filtered_records ::
  "stzlib \<Rightarrow> server \<Rightarrow> (string \<times> string) list \<Rightarrow> StranzitAuth \<times> request list \<Rightarrow>
   (exn + StzCallRecord list) \<times> StranzitAuth \<times> request list" where
  "get_filtered_records lib srv filters st =
     (case st of (a, sent) \<Rightarrow>
      let sent1 = sent @ [index_request filters]
      in case srv sent1 of
           Raises e \<Rightarrow> (Inl e, a, sent1)
         | Resp response \<Rightarrow>
             if status_code response \<noteq> 200 then (Inr [], a, sent1)
             else
               (case find_call_records lib (content response) of
                  None \<Rightarrow> (Inr [], a, sent1)
                | Some v \<Rightarrow>
                    (case decode_records lib v of
                       Inr records \<Rightarrow> (Inr records, a, sent1)
                     | Inl e \<Rightarrow> if e = JSONDecodeError then (Inr [], a, sent1) else (Inl e, a, sent1))))"

text \<open>
  \<open>run_continuous\<close> of the watcher: \<open>while not self.should_shutdown_gracefully()\<close>, the
  maintenance, the disk check (\<open>free_gb < 0.5\<close> of \<open>f_bavail * f_frsize\<close> bytes sleeps
  300 seconds and continues), the cycle and the sleep, all inside one \<open>try\<close> around the
  loop.  \<open>KeyboardInterrupt\<close> and \<open>Exception\<close> both end the loop; the second also sends the
  error notification.  In the model the cycle is the one step that can raise.
\<close>

record 's stz_ops =
  should_shutdown_gracefully :: "'s \<Rightarrow> bool"
  perform_maintenance :: "'s \<Rightarrow> 's"
  free_bytes :: "'s \<Rightarrow> nat"
  stz_run_once :: "'s \<Rightarrow> (exn + nat) \<times> 's"
  stz_sleep :: "nat \<Rightarrow> 's \<Rightarrow> 's"

fun stz_run_continuous ::
  "'s stz_ops \<Rightarrow> nat \<Rightarrow> nat \<Rightarrow> 's \<Rightarrow> loop_event list \<Rightarrow> loop_status \<times> 's \<times> loop_event list" where
  "stz_run_continuous ops check_interval 0 s tr = (Running, s, tr)"
| "stz_run_continuous ops check_interval (Suc n) s tr =
     (if should_shutdown_gracefully ops s then (Finished, s, tr)
      else
        let s0 = perform_maintenance ops s in
        if 2 * free_bytes ops s0 < 1024 ^ 3
        then stz_run_continuous ops check_interval n (stz_sleep ops 300 s0) (tr @ [Slept 300])
        else
          case stz_run_once ops s0 of
            (Inl e, s1) \<Rightarrow>
              if e = KeyboardInterrupt then (Finished, s1, tr @ [Failed e])
              else if is_Exception e then (Finished, s1, tr @ [Failed e, Notified e])
              else (Uncaught e, s1, tr @ [Failed e])
          | (Inr downloaded, s1) \<Rightarrow>
              stz_run_continuous ops check_interval n (stz_sleep ops check_interval s1)
                (tr @ [Ran downloaded, Slept check_interval]))"

section \<open>WatcherRestarter (svyaztransit/auto\_restart.py)\<close>





text \<open>One call of \<open>restart_watcher\<close> reads the clock in \<open>should_restart\<close>, tries to launch
  the script, and reads the clock again for \<open>last_restart_time\<close>.\<close>

datatype launch = Launched | Script_missing | Launch_error










section \<open>MultiAccountOrchestrator.monitor\_processes (rostelcom/multi\_account\_downloader.py)\<close>






section \<open>Concrete sessions, providers and library tables for the examples\<close>

definition r401 :: response where
  "r401 = \<lparr> status_code = 401, json_body = None, content = [], resp_url = [] \<rparr>"

definition always_401 :: server where
  "always_401 sent = Resp r401"

text \<open>A session after a successful login, holding a token and a refresh token.\<close>

definition demo_session :: CloudPBXAuth where
  "demo_session =
     (CloudPBXAuth_init (Some ''user'') (Some ''d.rt.ru''))
       \<lparr> token := JStr ''t0'', refresh_token := JStr ''r0'', is_authenticated := True,
         authorization := Some (JStr ''t0'') \<rparr>"

text \<open>A token whose second segment is the base64url text, without its padding, of a
  payload naming the issuer \<open>https://p1.cloudpbx.rt.ru/webapi\<close>, and the library tables
  that decode it.\<close>

definition demo_payload :: string where
  \<open>demo_payload = ''{"iss": "https://p1.cloudpbx.rt.ru/webapi"}''\<close>

definition demo_token :: string where
  "demo_token = ''eyJhbGciOiJIUzI1NiJ9.eyJpc3MiOiAiaHR0cHM6Ly9wMS5jbG91ZHBieC5ydC5ydS93ZWJhcGkifQ.c2ln''"

definition demo_lib :: pylib where
  "demo_lib =
     \<lparr> urlsafe_b64decode =
         (\<lambda>s. if s = ''eyJpc3MiOiAiaHR0cHM6Ly9wMS5jbG91ZHBieC5ydC5ydS93ZWJhcGkifQ==''
               then Some demo_payload else None),
       json_loads =
         (\<lambda>b. if b = demo_payload
               then Some (JObj [(''iss'', JStr ''https://p1.cloudpbx.rt.ru/webapi'')]) else None),
       decode_calls = (\<lambda>j. Inr []),
       can_write = (\<lambda>p. True) \<rparr>"

text \<open>A provider that accepts the login with the given token and refuses nothing.\<close>

definition login_response :: "json \<Rightarrow> response" where
  "login_response tok =
     \<lparr> status_code = 200,
       json_body = Some (JObj [(''token'', tok), (''refresh_token'', JStr ''r0''),
                               (''user_id'', JInt 7), (''domain_id'', JInt 3)]),
       content = [], resp_url = [] \<rparr>"

definition ok_response :: "string \<Rightarrow> response" where
  "ok_response bytes = \<lparr> status_code = 200, json_body = None, content = bytes, resp_url = [] \<rparr>"

definition accepting :: "json \<Rightarrow> server" where
  "accepting tok sent =
     (if sent \<noteq> [] \<and> rq_path (last sent) = ''/auth'' then Resp (login_response tok)
      else Resp (ok_response ''audio''))"

text \<open>A provider for which the token \<open>t0\<close> has expired: it answers 401 until the
  renewal, which hands out \<open>t1\<close>, and 200 to what is sent under \<open>t1\<close>.\<close>

definition expiring :: server where
  "expiring sent =
     (if sent \<noteq> [] \<and> rq_path (last sent) = ''/auth/refresh_token''
      then Resp (login_response (JStr ''t1''))
      else if sent \<noteq> [] \<and> rq_bearer (last sent) = Some (JStr ''t1'')
      then Resp (ok_response ''audio'')
      else Resp r401)"

definition refusing :: server where
  "refusing sent = Resp \<lparr> status_code = 403, json_body = None, content = [], resp_url = [] \<rparr>"

definition unreachable :: server where
  "unreachable sent = Raises RequestException"

definition fresh_session :: CloudPBXAuth where
  "fresh_session = CloudPBXAuth_init (Some ''user'') (Some ''d.rt.ru'')"

text \<open>Library tables for the Stranzit examples: a page without the input
  \<open>callRecords\<close>.\<close>

definition demo_stzlib :: stzlib where
  "demo_stzlib =
     \<lparr> parse_int = (\<lambda>s. None), timestamp_str = (\<lambda>ms. None),
       find_call_records = (\<lambda>page. None), decode_records = (\<lambda>v. Inr []) \<rparr>"

definition logged_out_stz :: StranzitAuth where
  "logged_out_stz = \<lparr> stz_username = None, stz_is_authenticated = False \<rparr>"





text \<open>Two loops for the examples.  The CloudPBX cycle counts its runs in the state and
  raises on every even one.  The Stranzit cycle meets a connection error; there is
  plenty of disk space and no shutdown signal.\<close>

definition demo_ros_ops :: "nat ros_ops" where
  "demo_ros_ops =
     \<lparr> ros_run_once = (\<lambda>k. (if even k then Inl RequestException else Inr 1, Suc k)),
       ros_sleep = (\<lambda>i k. (None, k)) \<rparr>"

definition demo_stz_ops :: "nat stz_ops" where
  "demo_stz_ops =
     \<lparr> should_shutdown_gracefully = (\<lambda>k. False),
       perform_maintenance = (\<lambda>k. k),
       free_bytes = (\<lambda>k. 10 * 1024 ^ 3),
       stz_run_once = (\<lambda>k. (Inl RequestException, Suc k)),
       stz_sleep = (\<lambda>i k. k) \<rparr>"

text \<open>The cycles a trace ran, whether they returned or raised.\<close>

fun is_cycle :: "loop_event \<Rightarrow> bool" where
  "is_cycle (Ran n) = True"
| "is_cycle (Failed e) = True"
| "is_cycle _ = False"

definition cycles :: "loop_event list \<Rightarrow> nat" where
  "cycles tr = length (filter is_cycle tr)"




section \<open>Filter correctness\<close>

lemma filter_loop_filter:
  "filter_loop cfg acc rs = acc @ filter (passes cfg) rs"
  by (induction rs arbitrary: acc) (auto simp: passes_def is_answered_def)

text \<open>
  C6.  \<open>filter_records\<close> keeps, in order, exactly the records that have a recording, whose
  recording lasts at least \<open>min_duration\<close> seconds and, when \<open>only_incoming\<close> is set, whose
  direction is \<open>group\<close> or \<open>group_skip\<close>.  Durations 60, 180, 181, 3600 with a minimum of 180
  give 180, 181, 3600: the boundary passes.  With \<open>only_incoming\<close> on, an outgoing record is
  dropped and an incoming one kept.  With \<open>only_incoming\<close> off and a minimum of 0, every
  record with a recording (of non-negative duration) passes.
\<close>

theorem filter_records_correct:
  "filter_records cfg rs = filter (passes cfg) rs
   \<and> (r \<in> set (filter_records cfg rs) \<longleftrightarrow>
        r \<in> set rs \<and> has_record r \<and> min_duration cfg \<le> duration_seconds r \<and>
        (only_incoming cfg \<longrightarrow> is_incoming r))
   \<and> map duration_seconds
        (filter_records (cfg_with 180 False)
           (map (\<lambda>d. rec_with d ''out'') [60, 180, 181, 3600])) = [180, 181, 3600]
   \<and> filter_records (cfg_with 0 True)
        [rec_with 200 ''out'', rec_with 200 ''group'', rec_with 200 ''group_skip'']
       = [rec_with 200 ''group'', rec_with 200 ''group_skip'']
   \<and> (\<not> only_incoming cfg \<and> min_duration cfg = 0 \<and> (\<forall>x \<in> set rs. 0 \<le> duration_seconds x)
        \<longrightarrow> filter_records cfg rs = filter has_record rs)"
proof -
  have eq: "\<And>c xs. filter_records c xs = filter (passes c) xs"
    by (simp add: filter_records_def filter_loop_filter)
  have mem: "r \<in> set (filter_records cfg rs) \<longleftrightarrow>
        r \<in> set rs \<and> has_record r \<and> min_duration cfg \<le> duration_seconds r \<and>
        (only_incoming cfg \<longrightarrow> is_incoming r)"
    by (auto simp: eq passes_def)
  have ex1: "map duration_seconds
        (filter_records (cfg_with 180 False)
           (map (\<lambda>d. rec_with d ''out'') [60, 180, 181, 3600])) = [180, 181, 3600]"
    by (simp add: eq passes_def cfg_with_def rec_with_def)
  have ex2: "filter_records (cfg_with 0 True)
        [rec_with 200 ''out'', rec_with 200 ''group'', rec_with 200 ''group_skip'']
       = [rec_with 200 ''group'', rec_with 200 ''group_skip'']"
    by (simp add: eq passes_def cfg_with_def rec_with_def is_incoming_def)
  have none: "\<not> only_incoming cfg \<and> min_duration cfg = 0 \<and> (\<forall>x \<in> set rs. 0 \<le> duration_seconds x)
        \<longrightarrow> filter_records cfg rs = filter has_record rs"
    by (auto simp: eq passes_def intro: filter_cong)
  from eq mem ex1 ex2 none show ?thesis by blast
qed

theorem filter_records_correct_witness:
  "\<not> only_incoming (cfg_with 0 False) \<and> min_duration (cfg_with 0 False) = 0
   \<and> 0 \<le> duration_seconds (rec_with 0 ''out'') \<and> 0 \<le> duration_seconds (rec_with 7 ''group'')
   \<and> filter_records (cfg_with 0 False) [rec_with 0 ''out'', rec_with 7 ''group'']
       = [rec_with 0 ''out'', rec_with 7 ''group'']"
  using filter_records_correct [of "cfg_with 0 False" "[rec_with 0 ''out'', rec_with 7 ''group'']"]
  by (simp add: cfg_with_def rec_with_def passes_def)

section \<open>Filename determinism and the fallback\<close>

lemma strptime_ymd_hms_error: "strptime_ymd_hms s = Inl e \<Longrightarrow> e = ValueError"
  by (auto simp: strptime_ymd_hms_def split: list.splits prod.splits if_splits)

lemma parse_date_time_error: "parse_date_time r = Inl e \<Longrightarrow> e = ValueError"
  by (auto simp: parse_date_time_def split: list.splits dest: strptime_ymd_hms_error)

lemma get_readable_filename_returns: "\<exists>f. get_readable_filename r = Inr f"
proof (cases "parse_date_time r")
  case (Inl e)
  then have "e = ValueError" by (rule parse_date_time_error)
  with Inl show ?thesis
    by (simp add: get_readable_filename_def readable_filename_body_def)
next
  case (Inr dt)
  then show ?thesis
    by (simp add: get_readable_filename_def readable_filename_body_def)
qed




section \<open>The session manager\<close>

lemma refresh_cases:
  assumes "refresh_access_token srv (a, s) = (res, a', s')"
  shows "BASE_URL a' = BASE_URL a \<and> is_authenticated a' = is_authenticated a \<and>
         refresh_token a' = refresh_token a \<and>
         (s' = s \<and> res = Inr False \<and> \<not> truthy (refresh_token a)
          \<or> s' = s @ [refresh_request a] \<and> truthy (refresh_token a))
         \<and> (res \<noteq> Inr True \<longrightarrow> a' = a)"
  using assms
  by (auto simp: refresh_access_token_def Let_def
           split: if_splits outcome.splits option.splits json.splits)

lemma get_unauthenticated:
  "\<not> is_authenticated a \<Longrightarrow> get srv ep ps (a, s) = (Inl ValueError, a, s)"
  by (simp add: get_def)

lemma post_unauthenticated:
  "\<not> is_authenticated a \<Longrightarrow> post srv ep b (a, s) = (Inl ValueError, a, s)"
  by (simp add: post_def)

lemma get_shape:
  assumes "is_authenticated a"
  shows "\<exists>res a' tail.
       get srv ep ps (a, sent) = (res, a', sent @ mk_request GET (BASE_URL a) ep ps JNull a # tail)
     \<and> BASE_URL a' = BASE_URL a \<and> is_authenticated a'
     \<and> (tail = [] \<or> tail = [mk_request GET (BASE_URL a) ep ps JNull a]
        \<or> tail = [mk_request GET (BASE_URL a) ep ps JNull a, refresh_request a]
        \<or> tail = [mk_request GET (BASE_URL a) ep ps JNull a, refresh_request a,
                   mk_request GET (BASE_URL a) ep ps JNull a'])"
proof -
  let ?rq = "mk_request GET (BASE_URL a) ep ps JNull a"
  obtain res a' s' where r: "refresh_access_token srv (a, sent @ [?rq, ?rq]) = (res, a', s')"
    by (metis prod_cases3)
  note c = refresh_cases [OF r]
  show ?thesis
    using assms r c
    by (auto simp: get_def Let_def split: outcome.splits sum.splits bool.splits)
qed

lemma post_shape:
  assumes "is_authenticated a"
  shows "\<exists>res a' tail.
       post srv ep b (a, sent) = (res, a', sent @ mk_request POST (BASE_URL a) ep [] b a # tail)
     \<and> BASE_URL a' = BASE_URL a \<and> is_authenticated a'
     \<and> (tail = [] \<or> tail = [refresh_request a]
        \<or> tail = [refresh_request a, mk_request POST (BASE_URL a) ep [] b a'])"
proof -
  let ?rq = "mk_request POST (BASE_URL a) ep [] b a"
  obtain res a' s' where r: "refresh_access_token srv (a, sent @ [?rq]) = (res, a', s')"
    by (metis prod_cases3)
  note c = refresh_cases [OF r]
  show ?thesis
    using assms r c
    by (auto simp: post_def Let_def split: outcome.splits sum.splits bool.splits)
qed

lemma get_always_401:
  assumes "is_authenticated a" "\<forall>h. srv h = Resp r" "status_code r = 401"
  shows "get srv ep ps (a, sent) =
     (Inr r, a,
      sent @ [mk_request GET (BASE_URL a) ep ps JNull a, mk_request GET (BASE_URL a) ep ps JNull a]
        @ (if truthy (refresh_token a) then [refresh_request a] else []))"
  using assms
  by (auto simp: get_def refresh_access_token_def Let_def)

lemma post_always_401:
  assumes "is_authenticated a" "\<forall>h. srv h = Resp r" "status_code r = 401"
  shows "post srv ep b (a, sent) =
     (Inr r, a,
      sent @ [mk_request POST (BASE_URL a) ep [] b a]
        @ (if truthy (refresh_token a) then [refresh_request a] else []))"
  using assms
  by (auto simp: post_def refresh_access_token_def Let_def)

lemma get_refresh_failed:
  assumes "is_authenticated a"
    and "rq = mk_request GET (BASE_URL a) ep ps JNull a"
    and "srv (sent @ [rq]) = Resp r1" "status_code r1 = 401"
    and "srv (sent @ [rq, rq]) = Resp r2" "status_code r2 = 401"
    and "refresh_access_token srv (a, sent @ [rq, rq]) = (Inr False, a2, s3)"
  shows "get srv ep ps (a, sent) = (Inr r2, a2, s3)"
  using assms by (simp add: get_def Let_def)

lemma refresh_true_iff:
  "refresh_access_token srv (a, h) = (Inr True, a2, s3) \<longleftrightarrow>
     truthy (refresh_token a) \<and> s3 = h @ [refresh_request a] \<and>
     (\<exists>r data. srv (h @ [refresh_request a]) = Resp r \<and> status_code r = 200
         \<and> json_body r = Some (JObj data)
         \<and> a2 = a\<lparr>token := dict_get data ''token'',
                    authorization := Some (dict_get data ''token'')\<rparr>)"
  by (auto simp: refresh_access_token_def Let_def
           split: if_splits outcome.splits option.splits json.splits)

lemma get_not_401:
  assumes "is_authenticated a"
    and "srv (sent @ [mk_request GET (BASE_URL a) ep ps JNull a]) = Resp r1" "status_code r1 \<noteq> 401"
  shows "get srv ep ps (a, sent) = (Inr r1, a, sent @ [mk_request GET (BASE_URL a) ep ps JNull a])"
  using assms by (simp add: get_def Let_def)

lemma get_retry_answered:
  assumes "is_authenticated a"
    and "rq = mk_request GET (BASE_URL a) ep ps JNull a"
    and "srv (sent @ [rq]) = Resp r1" "status_code r1 = 401"
    and "srv (sent @ [rq, rq]) = Resp r2" "status_code r2 \<noteq> 401"
  shows "get srv ep ps (a, sent) = (Inr r2, a, sent @ [rq, rq])"
  using assms by (simp add: get_def Let_def)

lemma get_renewed:
  assumes "is_authenticated a"
    and "rq = mk_request GET (BASE_URL a) ep ps JNull a"
    and "srv (sent @ [rq]) = Resp r1" "status_code r1 = 401"
    and "srv (sent @ [rq, rq]) = Resp r2" "status_code r2 = 401"
    and "refresh_access_token srv (a, sent @ [rq, rq]) = (Inr True, a2, s3)"
    and "srv (s3 @ [mk_request GET (BASE_URL a) ep ps JNull a2]) = Resp r3"
  shows "get srv ep ps (a, sent) = (Inr r3, a2, s3 @ [mk_request GET (BASE_URL a) ep ps JNull a2])"
  using assms by (simp add: get_def Let_def)

lemma post_not_401:
  assumes "is_authenticated a"
    and "srv (sent @ [mk_request POST (BASE_URL a) ep [] b a]) = Resp r1" "status_code r1 \<noteq> 401"
  shows "post srv ep b (a, sent) = (Inr r1, a, sent @ [mk_request POST (BASE_URL a) ep [] b a])"
  using assms by (simp add: post_def Let_def)

lemma post_refresh_failed:
  assumes "is_authenticated a"
    and "rq = mk_request POST (BASE_URL a) ep [] b a"
    and "srv (sent @ [rq]) = Resp r1" "status_code r1 = 401"
    and "refresh_access_token srv (a, sent @ [rq]) = (Inr False, a2, s2)"
  shows "post srv ep b (a, sent) = (Inr r1, a2, s2)"
  using assms by (simp add: post_def Let_def)

lemma post_renewed:
  assumes "is_authenticated a"
    and "rq = mk_request POST (BASE_URL a) ep [] b a"
    and "srv (sent @ [rq]) = Resp r1" "status_code r1 = 401"
    and "refresh_access_token srv (a, sent @ [rq]) = (Inr True, a2, s2)"
    and "srv (s2 @ [mk_request POST (BASE_URL a) ep [] b a2]) = Resp r3"
  shows "post srv ep b (a, sent) = (Inr r3, a2, s2 @ [mk_request POST (BASE_URL a) ep [] b a2])"
  using assms by (simp add: post_def Let_def)

lemma refresh_false_cases:
  assumes "refresh_access_token srv (a, h) = (Inr False, a2, s3)"
  shows "a2 = a \<and> (s3 = h \<and> \<not> truthy (refresh_token a)
                    \<or> s3 = h @ [refresh_request a] \<and> truthy (refresh_token a))"
  using assms
  by (auto simp: refresh_access_token_def Let_def
           split: if_splits outcome.splits option.splits json.splits)

lemma refresh_raised_cases:
  assumes "refresh_access_token srv (a, h) = (Inl e, a2, s3)"
  shows "\<not> is_Exception e \<and> srv (h @ [refresh_request a]) = Raises e"
  using assms
  by (auto simp: refresh_access_token_def Let_def
           split: if_splits outcome.splits option.splits json.splits)

text \<open>
  C2, as the code has it.  On an authenticated session \<open>get\<close> sends its request, and an
  answer other than 401 is returned at once.  After a 401 it sends the identical
  request once more, and an answer other than 401 to that is returned.  After a
  second 401 it tries one renewal.  If the renewal worked, the request is sent a
  third time under the new header and the answer to that is returned; if it failed,
  the second 401 response is returned, not raised, and the session is as it was.
  The renewal works exactly when a refresh token is held and the provider answers
  its one request with a 200 and a JSON object, whose token becomes the session's
  token and header; it raises nothing that is an \<open>Exception\<close>.  Nothing else is ever
  sent, so there is no loop.  A provider that
  answers 401 to everything sees the request twice and the renewal once (when there
  is a refresh token to renew with) and \<open>get\<close> returns the 401.  \<open>post\<close> has no bare
  retry: after a 401 it goes to the renewal at once, sends the request again only
  if that worked and returns the first 401 otherwise; the provider that always
  answers 401 sees the posted request once.
\<close>

theorem auth_retry_bounded:
  assumes "is_authenticated a"
  shows "(\<exists>res a' tail.
            get srv ep ps (a, sent) = (res, a', sent @ mk_request GET (BASE_URL a) ep ps JNull a # tail)
          \<and> (tail = [] \<or> tail = [mk_request GET (BASE_URL a) ep ps JNull a]
             \<or> tail = [mk_request GET (BASE_URL a) ep ps JNull a, refresh_request a]
             \<or> tail = [mk_request GET (BASE_URL a) ep ps JNull a, refresh_request a,
                        mk_request GET (BASE_URL a) ep ps JNull a']))
       \<and> (srv (sent @ [mk_request GET (BASE_URL a) ep ps JNull a]) = Resp r1 \<and> status_code r1 \<noteq> 401
          \<longrightarrow> get srv ep ps (a, sent) =
                (Inr r1, a, sent @ [mk_request GET (BASE_URL a) ep ps JNull a]))
       \<and> (srv (sent @ [mk_request GET (BASE_URL a) ep ps JNull a]) = Resp r1 \<and> status_code r1 = 401
          \<and> srv (sent @ [mk_request GET (BASE_URL a) ep ps JNull a,
                          mk_request GET (BASE_URL a) ep ps JNull a]) = Resp r2 \<and> status_code r2 \<noteq> 401
          \<longrightarrow> get srv ep ps (a, sent) =
                (Inr r2, a, sent @ [mk_request GET (BASE_URL a) ep ps JNull a,
                                    mk_request GET (BASE_URL a) ep ps JNull a]))
       \<and> (srv (sent @ [mk_request GET (BASE_URL a) ep ps JNull a]) = Resp r1 \<and> status_code r1 = 401
          \<and> srv (sent @ [mk_request GET (BASE_URL a) ep ps JNull a,
                          mk_request GET (BASE_URL a) ep ps JNull a]) = Resp r2 \<and> status_code r2 = 401
          \<and> refresh_access_token srv
               (a, sent @ [mk_request GET (BASE_URL a) ep ps JNull a,
                           mk_request GET (BASE_URL a) ep ps JNull a]) = (Inr True, a2, s3)
          \<and> srv (s3 @ [mk_request GET (BASE_URL a) ep ps JNull a2]) = Resp r3
          \<longrightarrow> get srv ep ps (a, sent) =
                (Inr r3, a2, s3 @ [mk_request GET (BASE_URL a) ep ps JNull a2]))
       \<and> (srv (sent @ [mk_request GET (BASE_URL a) ep ps JNull a]) = Resp r1 \<and> status_code r1 = 401
          \<and> srv (sent @ [mk_request GET (BASE_URL a) ep ps JNull a,
                          mk_request GET (BASE_URL a) ep ps JNull a]) = Resp r2 \<and> status_code r2 = 401
          \<and> refresh_access_token srv
               (a, sent @ [mk_request GET (BASE_URL a) ep ps JNull a,
                           mk_request GET (BASE_URL a) ep ps JNull a]) = (Inr False, a2, s3)
          \<longrightarrow> get srv ep ps (a, sent) = (Inr r2, a2, s3))
       \<and> ((\<forall>h. srv h = Resp r) \<and> status_code r = 401 \<longrightarrow>
            get srv ep ps (a, sent) =
              (Inr r, a,
               sent @ [mk_request GET (BASE_URL a) ep ps JNull a,
                       mk_request GET (BASE_URL a) ep ps JNull a]
                 @ (if truthy (refresh_token a) then [refresh_request a] else [])))
       \<and> ((refresh_access_token srv (a, h) = (Inr True, a3, h3)) =
            (truthy (refresh_token a) \<and> h3 = h @ [refresh_request a] \<and>
             (\<exists>rr data. srv (h @ [refresh_request a]) = Resp rr \<and> status_code rr = 200
                 \<and> json_body rr = Some (JObj data)
                 \<and> a3 = a\<lparr>token := dict_get data ''token'',
                            authorization := Some (dict_get data ''token'')\<rparr>)))
       \<and> (refresh_access_token srv (a, h) = (Inr False, a3, h3) \<longrightarrow>
            a3 = a \<and> (h3 = h \<and> \<not> truthy (refresh_token a)
                       \<or> h3 = h @ [refresh_request a] \<and> truthy (refresh_token a)))
       \<and> (refresh_access_token srv (a, h) = (Inl x, a3, h3) \<longrightarrow>
            \<not> is_Exception x \<and> srv (h @ [refresh_request a]) = Raises x)
       \<and> (\<exists>res a' tail.
            post srv ep b (a, sent) = (res, a', sent @ mk_request POST (BASE_URL a) ep [] b a # tail)
          \<and> (tail = [] \<or> tail = [refresh_request a]
             \<or> tail = [refresh_request a, mk_request POST (BASE_URL a) ep [] b a']))
       \<and> (srv (sent @ [mk_request POST (BASE_URL a) ep [] b a]) = Resp q1 \<and> status_code q1 \<noteq> 401
          \<longrightarrow> post srv ep b (a, sent) =
                (Inr q1, a, sent @ [mk_request POST (BASE_URL a) ep [] b a]))
       \<and> (srv (sent @ [mk_request POST (BASE_URL a) ep [] b a]) = Resp q1 \<and> status_code q1 = 401
          \<and> refresh_access_token srv
               (a, sent @ [mk_request POST (BASE_URL a) ep [] b a]) = (Inr True, b2, t2)
          \<and> srv (t2 @ [mk_request POST (BASE_URL a) ep [] b b2]) = Resp q3
          \<longrightarrow> post srv ep b (a, sent) =
                (Inr q3, b2, t2 @ [mk_request POST (BASE_URL a) ep [] b b2]))
       \<and> (srv (sent @ [mk_request POST (BASE_URL a) ep [] b a]) = Resp q1 \<and> status_code q1 = 401
          \<and> refresh_access_token srv
               (a, sent @ [mk_request POST (BASE_URL a) ep [] b a]) = (Inr False, b2, t2)
          \<longrightarrow> post srv ep b (a, sent) = (Inr q1, b2, t2))
       \<and> ((\<forall>h. srv h = Resp r) \<and> status_code r = 401 \<longrightarrow>
            post srv ep b (a, sent) =
              (Inr r, a,
               sent @ [mk_request POST (BASE_URL a) ep [] b a]
                 @ (if truthy (refresh_token a) then [refresh_request a] else [])))"
proof -
  have g1: "\<exists>res a' tail.
            get srv ep ps (a, sent) = (res, a', sent @ mk_request GET (BASE_URL a) ep ps JNull a # tail)
          \<and> (tail = [] \<or> tail = [mk_request GET (BASE_URL a) ep ps JNull a]
             \<or> tail = [mk_request GET (BASE_URL a) ep ps JNull a, refresh_request a]
             \<or> tail = [mk_request GET (BASE_URL a) ep ps JNull a, refresh_request a,
                        mk_request GET (BASE_URL a) ep ps JNull a'])"
    using get_shape [OF assms, of srv ep ps sent] by blast
  have g2: "srv (sent @ [mk_request GET (BASE_URL a) ep ps JNull a]) = Resp r1 \<and> status_code r1 \<noteq> 401
          \<longrightarrow> get srv ep ps (a, sent) =
                (Inr r1, a, sent @ [mk_request GET (BASE_URL a) ep ps JNull a])"
    using get_not_401 [where srv = srv, OF assms] by blast
  have g3: "srv (sent @ [mk_request GET (BASE_URL a) ep ps JNull a]) = Resp r1 \<and> status_code r1 = 401
          \<and> srv (sent @ [mk_request GET (BASE_URL a) ep ps JNull a,
                          mk_request GET (BASE_URL a) ep ps JNull a]) = Resp r2 \<and> status_code r2 \<noteq> 401
          \<longrightarrow> get srv ep ps (a, sent) =
                (Inr r2, a, sent @ [mk_request GET (BASE_URL a) ep ps JNull a,
                                    mk_request GET (BASE_URL a) ep ps JNull a])"
    using get_retry_answered [where srv = srv, OF assms refl] by blast
  have g4: "srv (sent @ [mk_request GET (BASE_URL a) ep ps JNull a]) = Resp r1 \<and> status_code r1 = 401
          \<and> srv (sent @ [mk_request GET (BASE_URL a) ep ps JNull a,
                          mk_request GET (BASE_URL a) ep ps JNull a]) = Resp r2 \<and> status_code r2 = 401
          \<and> refresh_access_token srv
               (a, sent @ [mk_request GET (BASE_URL a) ep ps JNull a,
                           mk_request GET (BASE_URL a) ep ps JNull a]) = (Inr True, a2, s3)
          \<and> srv (s3 @ [mk_request GET (BASE_URL a) ep ps JNull a2]) = Resp r3
          \<longrightarrow> get srv ep ps (a, sent) =
                (Inr r3, a2, s3 @ [mk_request GET (BASE_URL a) ep ps JNull a2])"
    using get_renewed [where srv = srv, OF assms refl] by blast
  have g5: "srv (sent @ [mk_request GET (BASE_URL a) ep ps JNull a]) = Resp r1 \<and> status_code r1 = 401
          \<and> srv (sent @ [mk_request GET (BASE_URL a) ep ps JNull a,
                          mk_request GET (BASE_URL a) ep ps JNull a]) = Resp r2 \<and> status_code r2 = 401
          \<and> refresh_access_token srv
               (a, sent @ [mk_request GET (BASE_URL a) ep ps JNull a,
                           mk_request GET (BASE_URL a) ep ps JNull a]) = (Inr False, a2, s3)
          \<longrightarrow> get srv ep ps (a, sent) = (Inr r2, a2, s3)"
    using get_refresh_failed [where srv = srv, OF assms refl] by blast
  have g6: "(\<forall>h. srv h = Resp r) \<and> status_code r = 401 \<longrightarrow>
            get srv ep ps (a, sent) =
              (Inr r, a,
               sent @ [mk_request GET (BASE_URL a) ep ps JNull a,
                       mk_request GET (BASE_URL a) ep ps JNull a]
                 @ (if truthy (refresh_token a) then [refresh_request a] else []))"
    using get_always_401 [where srv = srv, OF assms] by blast
  have f1: "(refresh_access_token srv (a, h) = (Inr True, a3, h3)) =
            (truthy (refresh_token a) \<and> h3 = h @ [refresh_request a] \<and>
             (\<exists>rr data. srv (h @ [refresh_request a]) = Resp rr \<and> status_code rr = 200
                 \<and> json_body rr = Some (JObj data)
                 \<and> a3 = a\<lparr>token := dict_get data ''token'',
                            authorization := Some (dict_get data ''token'')\<rparr>))"
    by (rule refresh_true_iff)
  have f2: "refresh_access_token srv (a, h) = (Inr False, a3, h3) \<longrightarrow>
            a3 = a \<and> (h3 = h \<and> \<not> truthy (refresh_token a)
                       \<or> h3 = h @ [refresh_request a] \<and> truthy (refresh_token a))"
    by (intro impI) (rule refresh_false_cases)
  have f3: "refresh_access_token srv (a, h) = (Inl x, a3, h3) \<longrightarrow>
            \<not> is_Exception x \<and> srv (h @ [refresh_request a]) = Raises x"
    by (intro impI) (rule refresh_raised_cases)
  have p1: "\<exists>res a' tail.
            post srv ep b (a, sent) = (res, a', sent @ mk_request POST (BASE_URL a) ep [] b a # tail)
          \<and> (tail = [] \<or> tail = [refresh_request a]
             \<or> tail = [refresh_request a, mk_request POST (BASE_URL a) ep [] b a'])"
    using post_shape [OF assms, of srv ep b sent] by blast
  have p2: "srv (sent @ [mk_request POST (BASE_URL a) ep [] b a]) = Resp q1 \<and> status_code q1 \<noteq> 401
          \<longrightarrow> post srv ep b (a, sent) =
                (Inr q1, a, sent @ [mk_request POST (BASE_URL a) ep [] b a])"
    using post_not_401 [where srv = srv, OF assms] by blast
  have p3: "srv (sent @ [mk_request POST (BASE_URL a) ep [] b a]) = Resp q1 \<and> status_code q1 = 401
          \<and> refresh_access_token srv
               (a, sent @ [mk_request POST (BASE_URL a) ep [] b a]) = (Inr True, b2, t2)
          \<and> srv (t2 @ [mk_request POST (BASE_URL a) ep [] b b2]) = Resp q3
          \<longrightarrow> post srv ep b (a, sent) =
                (Inr q3, b2, t2 @ [mk_request POST (BASE_URL a) ep [] b b2])"
    using post_renewed [where srv = srv, OF assms refl] by blast
  have p4: "srv (sent @ [mk_request POST (BASE_URL a) ep [] b a]) = Resp q1 \<and> status_code q1 = 401
          \<and> refresh_access_token srv
               (a, sent @ [mk_request POST (BASE_URL a) ep [] b a]) = (Inr False, b2, t2)
          \<longrightarrow> post srv ep b (a, sent) = (Inr q1, b2, t2)"
    using post_refresh_failed [where srv = srv, OF assms refl] by blast
  have p5: "(\<forall>h. srv h = Resp r) \<and> status_code r = 401 \<longrightarrow>
            post srv ep b (a, sent) =
              (Inr r, a,
               sent @ [mk_request POST (BASE_URL a) ep [] b a]
                 @ (if truthy (refresh_token a) then [refresh_request a] else []))"
    using post_always_401 [where srv = srv, OF assms] by blast
  show ?thesis
    by (intro conjI; fact)
qed

text \<open>A provider that answers 401 to everything, and one for which the token has
  expired: there \<open>get\<close> sends its request twice, renews, and is answered under the new
  token.\<close>

theorem auth_retry_bounded_witness:
  "is_authenticated demo_session
   \<and> get always_401 ''/domain/call_history'' [] (demo_session, []) =
       (Inr r401, demo_session,
        [mk_request GET (BASE_URL demo_session) ''/domain/call_history'' [] JNull demo_session,
         mk_request GET (BASE_URL demo_session) ''/domain/call_history'' [] JNull demo_session,
         refresh_request demo_session])
   \<and> get expiring ''/domain/call_history'' [] (demo_session, []) =
       (Inr (ok_response ''audio''),
        demo_session\<lparr>token := JStr ''t1'', authorization := Some (JStr ''t1'')\<rparr>,
        [mk_request GET (BASE_URL demo_session) ''/domain/call_history'' [] JNull demo_session,
         mk_request GET (BASE_URL demo_session) ''/domain/call_history'' [] JNull demo_session,
         refresh_request demo_session,
         mk_request GET (BASE_URL demo_session) ''/domain/call_history'' [] JNull
           (demo_session\<lparr>token := JStr ''t1'', authorization := Some (JStr ''t1'')\<rparr>)])"
proof -
  let ?rq = "mk_request GET (BASE_URL demo_session) ''/domain/call_history'' [] JNull demo_session"
  let ?a2 = "demo_session\<lparr>token := JStr ''t1'', authorization := Some (JStr ''t1'')\<rparr>"
  let ?rq2 = "mk_request GET (BASE_URL demo_session) ''/domain/call_history'' [] JNull ?a2"
  have a: "is_authenticated demo_session"
    by (simp add: demo_session_def)
  have s: "\<forall>h. always_401 h = Resp r401"
    by (simp add: always_401_def)
  have c: "status_code r401 = 401"
    by (simp add: r401_def)
  have t: "truthy (refresh_token demo_session)"
    by (simp add: demo_session_def)
  note th1 = auth_retry_bounded
    [OF a, where srv = always_401 and ep = "''/domain/call_history''" and ps = "[]"
       and sent = "[]" and r = r401]
  from th1 [THEN conjunct2, THEN conjunct2, THEN conjunct2, THEN conjunct2, THEN conjunct2,
            THEN conjunct1, THEN mp, OF conjI [OF s c]] t
  have one: "get always_401 ''/domain/call_history'' [] (demo_session, []) =
       (Inr r401, demo_session, [?rq, ?rq, refresh_request demo_session])"
    by simp
  have e1: "expiring ([] @ [?rq]) = Resp r401"
    by (simp add: expiring_def mk_request_def demo_session_def)
  have e2: "expiring ([] @ [?rq, ?rq]) = Resp r401"
    by (simp add: expiring_def mk_request_def demo_session_def)
  have e3: "refresh_access_token expiring (demo_session, [] @ [?rq, ?rq]) =
              (Inr True, ?a2, [?rq, ?rq, refresh_request demo_session])"
    by (simp add: refresh_access_token_def Let_def expiring_def refresh_request_def mk_request_def
        login_response_def dict_get_def t)
  have e4: "expiring ([?rq, ?rq, refresh_request demo_session] @ [?rq2]) = Resp (ok_response ''audio'')"
    by (simp add: expiring_def mk_request_def)
  note th2 = auth_retry_bounded
    [OF a, where srv = expiring and ep = "''/domain/call_history''" and ps = "[]"
       and sent = "[]" and ?r1.0 = r401 and ?r2.0 = r401 and ?a2.0 = ?a2
       and ?s3.0 = "[?rq, ?rq, refresh_request demo_session]" and ?r3.0 = "ok_response ''audio''"]
  from th2 [THEN conjunct2, THEN conjunct2, THEN conjunct2, THEN conjunct1, THEN mp,
            OF conjI [OF e1 conjI [OF c conjI [OF e2 conjI [OF c conjI [OF e3 e4]]]]]]
  have two: "get expiring ''/domain/call_history'' [] (demo_session, []) =
       (Inr (ok_response ''audio''), ?a2, [?rq, ?rq, refresh_request demo_session, ?rq2])"
    by simp
  from a one two show ?thesis
    by (intro conjI)
qed

text \<open>The claim as stated fails for \<open>post\<close>: the provider that always answers 401 gets
  the posted request once, followed by the renewal; there is no bare retry.\<close>

theorem post_no_bare_retry_counterexample:
  "post always_401 ''/domain/settings'' JNull (demo_session, []) =
     (Inr r401, demo_session,
      [mk_request POST (BASE_URL demo_session) ''/domain/settings'' [] JNull demo_session,
       refresh_request demo_session])
   \<and> length (filter (\<lambda>q. rq_path q = ''/domain/settings'')
               (snd (snd (post always_401 ''/domain/settings'' JNull (demo_session, []))))) = 1"
proof -
  have e: "post always_401 ''/domain/settings'' JNull (demo_session, []) =
     (Inr r401, demo_session,
      [mk_request POST (BASE_URL demo_session) ''/domain/settings'' [] JNull demo_session,
       refresh_request demo_session])"
    by (simp add: post_def refresh_access_token_def Let_def always_401_def r401_def
        demo_session_def CloudPBXAuth_init_def)
  show ?thesis
    unfolding e by (simp add: mk_request_def refresh_request_def)
qed

lemma authenticate_false_flag:
  "authenticate lib srv l p d (a, sent) = (Inr False, a', sent') \<Longrightarrow> \<not> is_authenticated a'"
  by (auto simp: authenticate_def Let_def
           split: if_splits outcome.splits option.splits json.splits)

lemma authenticate_not_200:
  assumes "truthy_str (py_or l (login a))" "truthy_str p" "truthy_str (py_or d (domain a))"
    and "srv (sent @ [auth_request (py_or l (login a)) p (py_or d (domain a)) a]) = Resp r"
    and "status_code r \<noteq> 200"
  shows "authenticate lib srv l p d (a, sent) =
           (Inr False, a\<lparr>is_authenticated := False\<rparr>,
            sent @ [auth_request (py_or l (login a)) p (py_or d (domain a)) a])"
  using assms by (simp add: authenticate_def Let_def)

lemma authenticate_raises:
  assumes "truthy_str (py_or l (login a))" "truthy_str p" "truthy_str (py_or d (domain a))"
    and "srv (sent @ [auth_request (py_or l (login a)) p (py_or d (domain a)) a]) = Raises e"
    and "is_Exception e"
  shows "authenticate lib srv l p d (a, sent) =
           (Inr False, a\<lparr>is_authenticated := False\<rparr>,
            sent @ [auth_request (py_or l (login a)) p (py_or d (domain a)) a])"
  using assms by (simp add: authenticate_def Let_def)

text \<open>
  C10.  Whenever \<open>authenticate\<close> returns \<open>False\<close> the flag is false afterwards, and \<open>get\<close>
  and \<open>post\<close> on that session raise \<open>ValueError\<close> without sending anything, whatever
  token or header an earlier login left behind.  A response other than 200 and an
  \<open>Exception\<close> of the request are two of the ways to \<open>False\<close>.
\<close>

theorem authenticate_failure_clears_flag:
  "(authenticate lib srv l p d (a, sent) = (Inr False, a', sent') \<longrightarrow>
      \<not> is_authenticated a'
      \<and> get srv2 ep ps (a', s) = (Inl ValueError, a', s)
      \<and> post srv2 ep b (a', s) = (Inl ValueError, a', s))
   \<and> (truthy_str (py_or l (login a)) \<and> truthy_str p \<and> truthy_str (py_or d (domain a))
      \<and> srv (sent @ [auth_request (py_or l (login a)) p (py_or d (domain a)) a]) = Resp r
      \<and> status_code r \<noteq> 200 \<longrightarrow>
        fst (authenticate lib srv l p d (a, sent)) = Inr False)
   \<and> (truthy_str (py_or l (login a)) \<and> truthy_str p \<and> truthy_str (py_or d (domain a))
      \<and> srv (sent @ [auth_request (py_or l (login a)) p (py_or d (domain a)) a]) = Raises e
      \<and> is_Exception e \<longrightarrow>
        fst (authenticate lib srv l p d (a, sent)) = Inr False)"
proof -
  have 1: "authenticate lib srv l p d (a, sent) = (Inr False, a', sent') \<longrightarrow>
      \<not> is_authenticated a'
      \<and> get srv2 ep ps (a', s) = (Inl ValueError, a', s)
      \<and> post srv2 ep b (a', s) = (Inl ValueError, a', s)"
    using authenticate_false_flag get_unauthenticated post_unauthenticated by blast
  have 2: "truthy_str (py_or l (login a)) \<and> truthy_str p \<and> truthy_str (py_or d (domain a))
      \<and> srv (sent @ [auth_request (py_or l (login a)) p (py_or d (domain a)) a]) = Resp r
      \<and> status_code r \<noteq> 200 \<longrightarrow>
        fst (authenticate lib srv l p d (a, sent)) = Inr False"
    by (auto simp: authenticate_not_200)
  have 3: "truthy_str (py_or l (login a)) \<and> truthy_str p \<and> truthy_str (py_or d (domain a))
      \<and> srv (sent @ [auth_request (py_or l (login a)) p (py_or d (domain a)) a]) = Raises e
      \<and> is_Exception e \<longrightarrow>
        fst (authenticate lib srv l p d (a, sent)) = Inr False"
    by (auto simp: authenticate_raises)
  from 1 2 3 show ?thesis by blast
qed

text \<open>A session that was logged in and whose next login is refused keeps its old
  token and header, loses the flag, and its \<open>get\<close> sends nothing.\<close>

theorem authenticate_failure_clears_flag_witness:
  "authenticate demo_lib refusing None (Some ''secret'') None (demo_session, []) =
     (Inr False, demo_session\<lparr>is_authenticated := False\<rparr>,
      [auth_request (Some ''user'') (Some ''secret'') (Some ''d.rt.ru'') demo_session])
   \<and> token (demo_session\<lparr>is_authenticated := False\<rparr>) = JStr ''t0''
   \<and> get (accepting (JStr ''t1'')) ''/domain/call_history'' []
         (demo_session\<lparr>is_authenticated := False\<rparr>, []) =
       (Inl ValueError, demo_session\<lparr>is_authenticated := False\<rparr>, [])
   \<and> fst (authenticate demo_lib unreachable None (Some ''secret'') None (demo_session, []))
       = Inr False"
proof -
  have e: "authenticate demo_lib refusing None (Some ''secret'') None (demo_session, []) =
     (Inr False, demo_session\<lparr>is_authenticated := False\<rparr>,
      [auth_request (Some ''user'') (Some ''secret'') (Some ''d.rt.ru'') demo_session])"
    by (simp add: authenticate_def Let_def refusing_def py_or_def demo_session_def
        CloudPBXAuth_init_def)
  have u: "truthy_str (py_or None (login demo_session)) \<and> truthy_str (Some ''secret'')
      \<and> truthy_str (py_or None (domain demo_session))
      \<and> unreachable ([] @ [auth_request (py_or None (login demo_session)) (Some ''secret'')
                              (py_or None (domain demo_session)) demo_session])
          = Raises RequestException
      \<and> is_Exception RequestException"
    by (simp add: unreachable_def py_or_def demo_session_def CloudPBXAuth_init_def)
  from authenticate_failure_clears_flag
         [of demo_lib refusing None "Some ''secret''" None demo_session "[]"
             "demo_session\<lparr>is_authenticated := False\<rparr>"
             "[auth_request (Some ''user'') (Some ''secret'') (Some ''d.rt.ru'') demo_session]"
             "accepting (JStr ''t1'')" "''/domain/call_history''" "[]" "[]"] e
  have g: "get (accepting (JStr ''t1'')) ''/domain/call_history'' []
         (demo_session\<lparr>is_authenticated := False\<rparr>, []) =
       (Inl ValueError, demo_session\<lparr>is_authenticated := False\<rparr>, [])"
    by blast
  from authenticate_failure_clears_flag
         [of demo_lib unreachable None "Some ''secret''" None demo_session "[]"
             _ _ _ _ _ _ _ _ RequestException] u
  have x: "fst (authenticate demo_lib unreachable None (Some ''secret'') None (demo_session, []))
       = Inr False"
    by blast
  have t: "token (demo_session\<lparr>is_authenticated := False\<rparr>) = JStr ''t0''"
    by (simp add: demo_session_def)
  from e g x t show ?thesis by blast
qed

section \<open>Endpoint discovery from the token\<close>

lemma extract_truthy: "extract_base_url_from_token lib tok = Some u \<Longrightarrow> truthy u"
  by (auto simp: extract_base_url_from_token_def Let_def
           split: json.splits list.splits option.splits if_splits)

lemma extract_decoded:
  assumes "split_char CHR ''.'' t = p0 # seg # rest"
    and "urlsafe_b64decode lib (pad_base64 seg) = Some bytes"
    and "json_loads lib bytes = Some (JObj kv)"
  shows "extract_base_url_from_token lib (JStr t) =
           (if truthy (dict_get kv ''iss'') then Some (dict_get kv ''iss'') else None)"
  using assms by (simp add: extract_base_url_from_token_def Let_def)

lemma extract_malformed:
  assumes "length (split_char CHR ''.'' t) < 2
           \<or> (\<exists>p0 seg rest. split_char CHR ''.'' t = p0 # seg # rest \<and>
                (urlsafe_b64decode lib (pad_base64 seg) = None
                 \<or> (\<exists>bytes. urlsafe_b64decode lib (pad_base64 seg) = Some bytes \<and>
                       (\<forall>kv. json_loads lib bytes \<noteq> Some (JObj kv)))))"
  shows "extract_base_url_from_token lib (JStr t) = None"
  using assms
  by (auto simp: extract_base_url_from_token_def Let_def
           split: json.splits list.splits option.splits if_splits)

lemma pad_base64_props:
  "length (pad_base64 s) mod 4 = 0 \<and> (\<exists>n. n < 4 \<and> pad_base64 s = s @ replicate n (CHR ''=''))"
proof -
  have "length s mod 4 \<noteq> 0 \<Longrightarrow> (length s + (4 - length s mod 4)) mod 4 = 0"
    by presburger
  moreover have "length s mod 4 \<noteq> 0 \<Longrightarrow> 4 - length s mod 4 < 4"
    by presburger
  ultimately show ?thesis
    by (auto simp: pad_base64_def Let_def intro: exI [of _ 0])
qed

lemma authenticate_success:
  assumes "truthy_str (py_or l (login a))" "truthy_str p" "truthy_str (py_or d (domain a))"
    and "srv (sent @ [auth_request (py_or l (login a)) p (py_or d (domain a)) a]) = Resp r"
    and "status_code r = 200" "json_body r = Some (JObj data)"
    and "sliceable (dict_get data ''token'')"
  shows "\<exists>a'. authenticate lib srv l p d (a, sent) =
           (Inr True, a', sent @ [auth_request (py_or l (login a)) p (py_or d (domain a)) a])
         \<and> is_authenticated a' \<and> token a' = dict_get data ''token''
         \<and> authorization a' = Some (dict_get data ''token'')
         \<and> BASE_URL a' =
             (case extract_base_url_from_token lib (dict_get data ''token'') of
                Some iss \<Rightarrow> iss | None \<Rightarrow> BASE_URL a)"
  using assms
  by (auto simp: authenticate_def Let_def split: option.splits dest: extract_truthy)

lemma get_bases:
  assumes "is_authenticated a" "get srv ep ps (a, s) = (res, a', s')"
  shows "\<exists>new. s' = s @ new \<and> new \<noteq> [] \<and> (\<forall>q \<in> set new. rq_base q = BASE_URL a)
         \<and> BASE_URL a' = BASE_URL a \<and> is_authenticated a'"
  using get_shape [OF assms(1), of srv ep ps s] assms(2)
  by (auto simp: mk_request_def refresh_request_def)

lemma post_bases:
  assumes "is_authenticated a" "post srv ep b (a, s) = (res, a', s')"
  shows "\<exists>new. s' = s @ new \<and> new \<noteq> [] \<and> (\<forall>q \<in> set new. rq_base q = BASE_URL a)
         \<and> BASE_URL a' = BASE_URL a \<and> is_authenticated a'"
  using post_shape [OF assms(1), of srv ep b s] assms(2)
  by (auto simp: mk_request_def refresh_request_def)

lemma demo_extract:
  "extract_base_url_from_token demo_lib (JStr demo_token) =
     Some (JStr ''https://p1.cloudpbx.rt.ru/webapi'')"
  by (simp add: extract_base_url_from_token_def demo_lib_def demo_token_def pad_base64_def
      Let_def dict_get_def numeral_2_eq_2)

text \<open>
  C8.  The issuer is read from the token's second segment between dots, padded with
  \<open>=\<close> to a multiple of four characters, decoded as base64url and then as JSON: a
  non-empty \<open>iss\<close> of a JSON object is the result; a token with fewer than two segments,
  a segment that does not decode, or a payload that is no JSON object gives none.
  When the provider answers the login with 200 and a string token, \<open>authenticate\<close>
  returns \<open>True\<close>; the session's endpoint is the issuer if one was found and the default
  otherwise, and every request that \<open>get\<close> and \<open>post\<close> send afterwards goes to that
  endpoint.
\<close>

theorem endpoint_discovery:
  assumes "truthy_str (py_or l (login a))" "truthy_str p" "truthy_str (py_or d (domain a))"
    and "srv (sent @ [auth_request (py_or l (login a)) p (py_or d (domain a)) a]) = Resp r"
    and "status_code r = 200" "json_body r = Some (JObj data)"
    and "dict_get data ''token'' = JStr t"
  shows "(\<exists>a'. authenticate lib srv l p d (a, sent) =
             (Inr True, a', sent @ [auth_request (py_or l (login a)) p (py_or d (domain a)) a])
           \<and> is_authenticated a'
           \<and> BASE_URL a' =
               (case extract_base_url_from_token lib (JStr t) of
                  Some iss \<Rightarrow> iss | None \<Rightarrow> BASE_URL a)
           \<and> (\<forall>srv2 ep ps s res a2 s2. get srv2 ep ps (a', s) = (res, a2, s2) \<longrightarrow>
                 (\<exists>new. s2 = s @ new \<and> new \<noteq> [] \<and> (\<forall>q \<in> set new. rq_base q = BASE_URL a')
                        \<and> BASE_URL a2 = BASE_URL a'))
           \<and> (\<forall>srv2 ep b s res a2 s2. post srv2 ep b (a', s) = (res, a2, s2) \<longrightarrow>
                 (\<exists>new. s2 = s @ new \<and> new \<noteq> [] \<and> (\<forall>q \<in> set new. rq_base q = BASE_URL a')
                        \<and> BASE_URL a2 = BASE_URL a')))
       \<and> (\<forall>p0 seg rest bytes kv.
             split_char CHR ''.'' t = p0 # seg # rest
             \<and> urlsafe_b64decode lib (pad_base64 seg) = Some bytes
             \<and> json_loads lib bytes = Some (JObj kv) \<longrightarrow>
             extract_base_url_from_token lib (JStr t) =
               (if truthy (dict_get kv ''iss'') then Some (dict_get kv ''iss'') else None))
       \<and> (length (split_char CHR ''.'' t) < 2
           \<or> (\<exists>p0 seg rest. split_char CHR ''.'' t = p0 # seg # rest \<and>
                (urlsafe_b64decode lib (pad_base64 seg) = None
                 \<or> (\<exists>bytes. urlsafe_b64decode lib (pad_base64 seg) = Some bytes \<and>
                       (\<forall>kv. json_loads lib bytes \<noteq> Some (JObj kv)))))
           \<longrightarrow> extract_base_url_from_token lib (JStr t) = None)
       \<and> (\<forall>seg. length (pad_base64 seg) mod 4 = 0
                \<and> (\<exists>n. n < 4 \<and> pad_base64 seg = seg @ replicate n (CHR ''='')))"
proof -
  have sl: "sliceable (dict_get data ''token'')"
    using assms(7) by simp
  from authenticate_success
         [where lib = lib and srv = srv and sent = sent and a = a and l = l and p = p
            and d = d and r = r and data = data] assms(1-6) sl
  obtain a' where a':
    "authenticate lib srv l p d (a, sent) =
       (Inr True, a', sent @ [auth_request (py_or l (login a)) p (py_or d (domain a)) a])"
    "is_authenticated a'"
    "BASE_URL a' =
       (case extract_base_url_from_token lib (JStr t) of Some iss \<Rightarrow> iss | None \<Rightarrow> BASE_URL a)"
    using assms(7) by auto
  have g: "\<forall>srv2 ep ps s res a2 s2. get srv2 ep ps (a', s) = (res, a2, s2) \<longrightarrow>
                 (\<exists>new. s2 = s @ new \<and> new \<noteq> [] \<and> (\<forall>q \<in> set new. rq_base q = BASE_URL a')
                        \<and> BASE_URL a2 = BASE_URL a')"
    using get_bases [OF a'(2)] by blast
  have po: "\<forall>srv2 ep b s res a2 s2. post srv2 ep b (a', s) = (res, a2, s2) \<longrightarrow>
                 (\<exists>new. s2 = s @ new \<and> new \<noteq> [] \<and> (\<forall>q \<in> set new. rq_base q = BASE_URL a')
                        \<and> BASE_URL a2 = BASE_URL a')"
    using post_bases [OF a'(2)] by blast
  have first: "\<exists>a'. authenticate lib srv l p d (a, sent) =
             (Inr True, a', sent @ [auth_request (py_or l (login a)) p (py_or d (domain a)) a])
           \<and> is_authenticated a'
           \<and> BASE_URL a' =
               (case extract_base_url_from_token lib (JStr t) of
                  Some iss \<Rightarrow> iss | None \<Rightarrow> BASE_URL a)
           \<and> (\<forall>srv2 ep ps s res a2 s2. get srv2 ep ps (a', s) = (res, a2, s2) \<longrightarrow>
                 (\<exists>new. s2 = s @ new \<and> new \<noteq> [] \<and> (\<forall>q \<in> set new. rq_base q = BASE_URL a')
                        \<and> BASE_URL a2 = BASE_URL a'))
           \<and> (\<forall>srv2 ep b s res a2 s2. post srv2 ep b (a', s) = (res, a2, s2) \<longrightarrow>
                 (\<exists>new. s2 = s @ new \<and> new \<noteq> [] \<and> (\<forall>q \<in> set new. rq_base q = BASE_URL a')
                        \<and> BASE_URL a2 = BASE_URL a'))"
    using a' g po by (intro exI [of _ a']) simp
  have dec: "\<forall>p0 seg rest bytes kv.
             split_char CHR ''.'' t = p0 # seg # rest
             \<and> urlsafe_b64decode lib (pad_base64 seg) = Some bytes
             \<and> json_loads lib bytes = Some (JObj kv) \<longrightarrow>
             extract_base_url_from_token lib (JStr t) =
               (if truthy (dict_get kv ''iss'') then Some (dict_get kv ''iss'') else None)"
    using extract_decoded by blast
  have mal: "length (split_char CHR ''.'' t) < 2
           \<or> (\<exists>p0 seg rest. split_char CHR ''.'' t = p0 # seg # rest \<and>
                (urlsafe_b64decode lib (pad_base64 seg) = None
                 \<or> (\<exists>bytes. urlsafe_b64decode lib (pad_base64 seg) = Some bytes \<and>
                       (\<forall>kv. json_loads lib bytes \<noteq> Some (JObj kv)))))
           \<longrightarrow> extract_base_url_from_token lib (JStr t) = None"
    using extract_malformed [of t lib] by blast
  have pad: "\<forall>seg. length (pad_base64 seg) mod 4 = 0
                \<and> (\<exists>n. n < 4 \<and> pad_base64 seg = seg @ replicate n (CHR ''=''))"
    using pad_base64_props by blast
  from first dec mal pad show ?thesis by blast
qed

text \<open>A login answered with a token whose payload names \<open>p1\<close> moves the session to
  \<open>p1\<close>.\<close>

theorem endpoint_discovery_witness:
  "fst (authenticate demo_lib (accepting (JStr demo_token)) None (Some ''secret'') None
          (fresh_session, [])) = Inr True
   \<and> BASE_URL (fst (snd (authenticate demo_lib (accepting (JStr demo_token)) None (Some ''secret'') None
          (fresh_session, [])))) = JStr ''https://p1.cloudpbx.rt.ru/webapi''
   \<and> BASE_URL fresh_session = JStr ''https://p2.cloudpbx.rt.ru/webapi''"
proof -
  let ?rq = "auth_request (py_or None (login fresh_session)) (Some ''secret'')
               (py_or None (domain fresh_session)) fresh_session"
  have c: "truthy_str (py_or None (login fresh_session))" "truthy_str (Some ''secret'')"
          "truthy_str (py_or None (domain fresh_session))"
    by (simp_all add: py_or_def fresh_session_def CloudPBXAuth_init_def)
  have s: "accepting (JStr demo_token) ([] @ [?rq]) = Resp (login_response (JStr demo_token))"
    by (simp add: accepting_def auth_request_def mk_request_def)
  have r: "status_code (login_response (JStr demo_token)) = 200"
          "json_body (login_response (JStr demo_token)) =
             Some (JObj [(''token'', JStr demo_token), (''refresh_token'', JStr ''r0''),
                         (''user_id'', JInt 7), (''domain_id'', JInt 3)])"
    by (simp_all add: login_response_def)
  have t: "dict_get [(''token'', JStr demo_token), (''refresh_token'', JStr ''r0''),
                     (''user_id'', JInt 7), (''domain_id'', JInt 3)] ''token'' = JStr demo_token"
    by (simp add: dict_get_def)
  note th = endpoint_discovery
         [where lib = demo_lib and srv = "accepting (JStr demo_token)" and sent = "[]"
            and a = fresh_session and l = None and p = "Some ''secret''" and d = None
            and r = "login_response (JStr demo_token)" and t = demo_token
            and data = "[(''token'', JStr demo_token), (''refresh_token'', JStr ''r0''),
                         (''user_id'', JInt 7), (''domain_id'', JInt 3)]", OF c s r t]
  from th have "\<exists>a'. authenticate demo_lib (accepting (JStr demo_token)) None (Some ''secret'') None
       (fresh_session, []) = (Inr True, a', [] @ [?rq])
     \<and> BASE_URL a' =
       (case extract_base_url_from_token demo_lib (JStr demo_token) of
          Some iss \<Rightarrow> iss | None \<Rightarrow> BASE_URL fresh_session)"
    by (elim conjE exE) (rule exI, intro conjI; assumption)
  then show ?thesis
    by (auto simp: demo_extract fresh_session_def CloudPBXAuth_init_def default_base_url_def)
qed

section \<open>Requests on a session that is not authenticated\<close>

lemma get_call_history_unauthenticated:
  "\<not> is_authenticated (w_auth w) \<Longrightarrow> get_call_history lib srv ds de w = (Inr [], w)"
  by (simp add: get_call_history_def get_unauthenticated)

lemma download_record_unauthenticated:
  "\<not> is_authenticated (w_auth w) \<Longrightarrow> download_record lib srv cfg r w = (Inr None, w)"
  by (simp add: download_record_def get_unauthenticated)

lemma get_filtered_records_sends:
  "\<exists>res. get_filtered_records slib srv f (sa, sent) = (res, sa, sent @ [index_request f])"
  by (auto simp: get_filtered_records_def Let_def split: outcome.splits option.splits sum.splits)

lemma get_sent_authenticated:
  assumes "get srv ep ps (a, sent) = (res, a1, s1)" "s1 \<noteq> sent"
  shows "is_authenticated a \<and> is_authenticated a1"
proof (cases "is_authenticated a")
  case True
  with get_bases [OF True assms(1)] show ?thesis by blast
next
  case False
  with assms get_unauthenticated [OF False, of srv ep ps sent] show ?thesis by simp
qed

lemma post_sent_authenticated:
  assumes "post srv ep b (a, sent) = (res, a1, s1)" "s1 \<noteq> sent"
  shows "is_authenticated a \<and> is_authenticated a1"
proof (cases "is_authenticated a")
  case True
  with post_bases [OF True assms(1)] show ?thesis by blast
next
  case False
  with assms post_unauthenticated [OF False, of srv ep b sent] show ?thesis by simp
qed

text \<open>
  C3, as the code has it.  In the CloudPBX session manager \<open>get\<close> and \<open>post\<close> on a session
  whose flag is false raise \<open>ValueError\<close> and send nothing; the call-history fetch and
  the recording download, which go through \<open>get\<close>, then return the empty list and
  \<open>None\<close> with nothing sent; and whenever \<open>get\<close> or \<open>post\<close> did send something the flag was
  true before and after.  The Stranzit watcher's \<open>get_filtered_records\<close> has no such
  guard: it posts through the raw session whatever the flag is.
\<close>

theorem unauthenticated_session_sends_nothing:
  "(\<not> is_authenticated a \<longrightarrow>
      get srv ep ps (a, sent) = (Inl ValueError, a, sent)
      \<and> post srv ep b (a, sent) = (Inl ValueError, a, sent))
   \<and> (\<not> is_authenticated (w_auth w) \<longrightarrow>
      get_call_history lib srv ds de w = (Inr [], w)
      \<and> download_record lib srv cfg r w = (Inr None, w))
   \<and> (get srv ep ps (a, sent) = (res, a1, s1) \<and> s1 \<noteq> sent \<longrightarrow>
        is_authenticated a \<and> is_authenticated a1)
   \<and> (post srv ep b (a, sent) = (res, a1, s1) \<and> s1 \<noteq> sent \<longrightarrow>
        is_authenticated a \<and> is_authenticated a1)
   \<and> (\<exists>res. get_filtered_records slib srv f (sa, sent) = (res, sa, sent @ [index_request f]))"
  using get_unauthenticated [of a srv ep ps sent] post_unauthenticated [of a srv ep b sent]
    get_call_history_unauthenticated [of w lib srv ds de]
    download_record_unauthenticated [of w lib srv cfg r]
    get_sent_authenticated [of srv ep ps a sent res a1 s1]
    post_sent_authenticated [of srv ep b a sent res a1 s1]
    get_filtered_records_sends [of slib srv f sa sent]
  by blast

theorem unauthenticated_session_sends_nothing_witness:
  "\<not> is_authenticated fresh_session
   \<and> get (accepting (JStr ''t1'')) ''/domain/call_history'' [] (fresh_session, []) =
       (Inl ValueError, fresh_session, [])
   \<and> post (accepting (JStr ''t1'')) ''/domain/settings'' JNull (fresh_session, []) =
       (Inl ValueError, fresh_session, [])"
proof -
  have n: "\<not> is_authenticated fresh_session"
    by (simp add: fresh_session_def CloudPBXAuth_init_def)
  from unauthenticated_session_sends_nothing
         [where a = fresh_session and srv = "accepting (JStr ''t1'')"
            and ep = "''/domain/call_history''" and ps = "[]" and sent = "[]"] n
  have g: "get (accepting (JStr ''t1'')) ''/domain/call_history'' [] (fresh_session, []) =
       (Inl ValueError, fresh_session, [])"
    by blast
  from unauthenticated_session_sends_nothing
         [where a = fresh_session and srv = "accepting (JStr ''t1'')"
            and ep = "''/domain/settings''" and b = JNull and sent = "[]"] n
  have p: "post (accepting (JStr ''t1'')) ''/domain/settings'' JNull (fresh_session, []) =
       (Inl ValueError, fresh_session, [])"
    by blast
  from n g p show ?thesis by blast
qed

text \<open>The claim as stated fails on the Stranzit watcher: on a session that never logged
  in, \<open>get_filtered_records\<close> sends its query and returns a result, not an error.\<close>

theorem stranzit_unguarded_counterexample:
  "stz_is_authenticated logged_out_stz = False
   \<and> get_filtered_records demo_stzlib always_401 [] (logged_out_stz, []) =
       (Inr [], logged_out_stz, [index_request []])"
  by (simp add: get_filtered_records_def Let_def always_401_def r401_def logged_out_stz_def)

section \<open>The ledger\<close>





lemma ior_others:
  "filter (\<lambda>x. key x \<noteq> k) (insert_or_replace key row tbl) =
   filter (\<lambda>x. key x \<noteq> k) (filter (\<lambda>x. key x \<noteq> key row) tbl) @ (if key row \<noteq> k then [row] else [])"
  by (simp add: insert_or_replace_def)

lemma ior_idem:
  "insert_or_replace key row (insert_or_replace key row tbl) = insert_or_replace key row tbl"
  by (simp add: insert_or_replace_def)












lemma call_ids_commit:
  "set (map row_call_id tbl) \<subseteq> set (map row_call_id (tbl @ [x]))"
  by auto








































section \<open>The poll loops\<close>

lemma run_continuous_contained:
  assumes exc: "\<And>s e s1. ros_run_once ops s = (Inl e, s1) \<Longrightarrow> is_Exception e"
    and slp: "\<And>i s. fst (ros_sleep ops i s) = None"
  shows "\<exists>s' tr'. run_continuous ops i n s tr = (Running, s', tr')
           \<and> sleeps tr' = sleeps tr + n \<and> cycles tr' = cycles tr + n"
proof (induction n arbitrary: s tr)
  case 0
  show ?case by simp
next
  case (Suc n)
  obtain r s1 where ro: "ros_run_once ops s = (r, s1)"
    by (cases "ros_run_once ops s")
  obtain s2 where sl: "ros_sleep ops i s1 = (None, s2)"
    using slp [of i s1] by (cases "ros_sleep ops i s1") auto
  show ?case
  proof (cases r)
    case (Inl e)
    with ro exc have ex: "is_Exception e" by blast
    from Suc.IH [of s2 "tr @ [Failed e, Slept i]"] obtain s' tr' where
      "run_continuous ops i n s2 (tr @ [Failed e, Slept i]) = (Running, s', tr')"
      "sleeps tr' = sleeps (tr @ [Failed e, Slept i]) + n"
      "cycles tr' = cycles (tr @ [Failed e, Slept i]) + n"
      by blast
    with ro sl Inl ex show ?thesis
      by (simp add: sleeps_def cycles_def)
  next
    case (Inr k)
    from Suc.IH [of s2 "tr @ [Ran k, Slept i]"] obtain s' tr' where
      "run_continuous ops i n s2 (tr @ [Ran k, Slept i]) = (Running, s', tr')"
      "sleeps tr' = sleeps (tr @ [Ran k, Slept i]) + n"
      "cycles tr' = cycles (tr @ [Ran k, Slept i]) + n"
      by blast
    with ro sl Inr show ?thesis
      by (simp add: sleeps_def cycles_def)
  qed
qed

lemma run_continuous_failed_cycle:
  assumes "ros_run_once ops s = (Inl e, s1)" "is_Exception e" "ros_sleep ops i s1 = (None, s2)"
  shows "run_continuous ops i (Suc n) s tr = run_continuous ops i n s2 (tr @ [Failed e, Slept i])"
  using assms by simp

lemma stz_exception_ends_loop:
  assumes "\<not> should_shutdown_gracefully ops s"
    and "\<not> 2 * free_bytes ops (perform_maintenance ops s) < 1024 ^ 3"
    and "stz_run_once ops (perform_maintenance ops s) = (Inl e, s1)"
    and "is_Exception e"
  shows "stz_run_continuous ops i (Suc n) s tr = (Finished, s1, tr @ [Failed e, Notified e])"
proof -
  from assms(4) have "e \<noteq> KeyboardInterrupt" by auto
  with assms show ?thesis by (simp add: Let_def)
qed

lemma refresh_raise:
  "refresh_access_token srv (a, s) = (Inl e, a', s') \<Longrightarrow> \<not> is_Exception e \<and> (\<exists>h. srv h = Raises e)"
  by (auto simp: refresh_access_token_def Let_def
           split: if_splits outcome.splits option.splits json.splits)

lemma get_raise:
  assumes "get srv ep ps (a, s) = (Inl e, a', s')"
  shows "e = ValueError \<or> (\<exists>h. srv h = Raises e)"
proof (cases "is_authenticated a")
  case False
  with assms show ?thesis by (simp add: get_def)
next
  case True
  let ?rq = "mk_request GET (BASE_URL a) ep ps JNull a"
  obtain res a2 s2 where r: "refresh_access_token srv (a, s @ [?rq, ?rq]) = (res, a2, s2)"
    by (metis prod_cases3)
  from refresh_raise [of srv a "s @ [?rq, ?rq]" e a2 s2] r
  have rr: "res = Inl e \<Longrightarrow> \<exists>h. srv h = Raises e" by blast
  from assms True r rr show ?thesis
    by (auto simp: get_def Let_def split: outcome.splits sum.splits bool.splits if_splits)
qed

lemma authenticate_raise:
  "authenticate lib srv l p d (a, s) = (Inl e, a', s') \<Longrightarrow>
     e = ValueError \<or> (\<not> is_Exception e \<and> (\<exists>h. srv h = Raises e))"
  by (auto simp: authenticate_def Let_def
           split: if_splits outcome.splits option.splits json.splits)

lemma downloader_authenticate_raise:
  assumes "downloader_authenticate lib srv cfg w = (Inl e, w')"
  shows "\<exists>h. srv h = Raises e"
proof -
  obtain res a' s' where a: "authenticate lib srv None (Some (password_cfg cfg)) None (w_auth w, w_sent w) = (res, a', s')"
    by (metis prod_cases3)
  with assms have "res = Inl e" "\<not> is_Exception e"
    by (auto simp: downloader_authenticate_def split: sum.splits if_splits)
  with authenticate_raise [of lib srv None "Some (password_cfg cfg)" None "w_auth w" "w_sent w" e a' s'] a
  show ?thesis by auto
qed

lemma get_call_history_raise:
  assumes "get_call_history lib srv ds de w = (Inl e, w')"
  shows "(\<exists>h. srv h = Raises e) \<or> (\<exists>j. decode_calls lib j = Inl e)"
proof -
  obtain res a' s' where g: "get srv ''/domain/call_history'' (history_params ds de) (w_auth w, w_sent w) = (res, a', s')"
    by (metis prod_cases3)
  show ?thesis
  proof (cases res)
    case (Inl x)
    with assms g have xe: "x = e" and ne: "\<not> is_Exception e"
      by (auto simp: get_call_history_def split: if_splits)
    from g Inl xe have "get srv ''/domain/call_history'' (history_params ds de) (w_auth w, w_sent w) = (Inl e, a', s')"
      by simp
    from get_raise [OF this] ne show ?thesis by auto
  next
    case (Inr response)
    with assms g show ?thesis
      by (auto simp: get_call_history_def Let_def
               split: if_splits option.splits json.splits sum.splits)
  qed
qed

lemma download_record_raise:
  assumes "download_record lib srv cfg r w = (Inl e, w')"
  shows "\<exists>h. srv h = Raises e"
proof -
  obtain res a' s' where g: "get srv (record_endpoint (opt_str (record_call_id r))) [] (w_auth w, w_sent w) = (res, a', s')"
    by (metis prod_cases3)
  obtain f where f: "get_readable_filename r = Inr f"
    using get_readable_filename_returns by blast
  show ?thesis
  proof (cases res)
    case (Inl x)
    with assms g have xe: "x = e" and ne: "\<not> is_Exception e"
      by (auto simp: download_record_def split: if_splits)
    from g Inl xe have "get srv (record_endpoint (opt_str (record_call_id r))) [] (w_auth w, w_sent w) = (Inl e, a', s')"
      by simp
    from get_raise [OF this] ne show ?thesis by auto
  next
    case (Inr response)
    with assms g f show ?thesis
      by (auto simp: download_record_def Let_def split: if_splits)
  qed
qed

lemma process_loop_raise:
  assumes "process_loop lib srv cfg rs n w = (Inl e, w')"
  shows "e = OSError \<or> (\<exists>h. srv h = Raises e)"
  using assms
proof (induction rs arbitrary: n w)
  case Nil
  then show ?case by simp
next
  case (Cons r rs)
  show ?case
  proof (cases "is_record_downloaded (w_db w) (record_call_id r)")
    case True
    with Cons.prems have "process_loop lib srv cfg rs n w = (Inl e, w')" by simp
    then show ?thesis by (rule Cons.IH)
  next
    case False
    obtain dres w1 where d: "download_record lib srv cfg r w = (dres, w1)"
      by (cases "download_record lib srv cfg r w")
    show ?thesis
    proof (cases dres)
      case (Inl x)
      with Cons.prems False d have "x = e" by simp
      with download_record_raise [of lib srv cfg r w e w1] d Inl show ?thesis by simp
    next
      case (Inr filepath)
      show ?thesis
      proof (cases "truthy_str filepath")
        case nofile: False
        with Cons.prems False d Inr
        have "process_loop lib srv cfg rs n w1 = (Inl e, w')" by simp
        then show ?thesis by (rule Cons.IH)
      next
        case hasfile: True
        show ?thesis
        proof (cases "getsize (w_files w1) (opt_str filepath)")
          case (Inl x)
          then have "x = OSError" by (auto simp: getsize_def split: option.splits)
          with Cons.prems False d Inr hasfile Inl show ?thesis by simp
        next
          case (Inr file_size)
          with Cons.prems False d \<open>dres = Inr filepath\<close> hasfile
          have "process_loop lib srv cfg rs (n + 1)
                  (w1\<lparr>w_db := mark_record_downloaded (w_db w1) r (opt_str filepath) file_size
                                  (Some (city_name cfg)) (Some (domain_cfg cfg))\<rparr>) = (Inl e, w')"
            by simp
          then show ?thesis by (rule Cons.IH)
        qed
      qed
    qed
  qed
qed

lemma run_once_raise:
  assumes "run_once lib srv cfg ds de w = (Inl e, w')"
  shows "e = OSError \<or> (\<exists>h. srv h = Raises e) \<or> (\<exists>j. decode_calls lib j = Inl e)"
proof -
  obtain ar w1 where a: "downloader_authenticate lib srv cfg w = (ar, w1)"
    by (cases "downloader_authenticate lib srv cfg w")
  show ?thesis
  proof (cases ar)
    case (Inl x)
    with assms a have "x = e" by (simp add: run_once_def)
    with downloader_authenticate_raise [of lib srv cfg w e w1] a Inl show ?thesis by simp
  next
    case (Inr ok)
    show ?thesis
    proof (cases ok)
      case False
      with assms a Inr show ?thesis by (simp add: run_once_def)
    next
      case True
      obtain hr w2 where h: "get_call_history lib srv ds de w1 = (hr, w2)"
        by (cases "get_call_history lib srv ds de w1")
      show ?thesis
      proof (cases hr)
        case (Inl x)
        with assms a Inr True h have "x = e" by (simp add: run_once_def)
        with get_call_history_raise [of lib srv ds de w1 e w2] h Inl show ?thesis by simp
      next
        case recs: (Inr records)
        show ?thesis
        proof (cases "records = [] \<or> filter_records cfg records = []")
          case True
          with assms a Inr \<open>ok\<close> h recs show ?thesis
            by (auto simp: run_once_def Let_def split: if_splits)
        next
          case False
          with assms a Inr \<open>ok\<close> h recs
          have "process_loop lib srv cfg (filter_records cfg records) 0 w2 = (Inl e, w')"
            by (auto simp: run_once_def Let_def process_new_records_def)
          from process_loop_raise [OF this] show ?thesis by blast
        qed
      qed
    qed
  qed
qed

lemma downloader_loop_contained:
  assumes "\<forall>h e. srv h = Raises e \<longrightarrow> is_Exception e"
    and "\<forall>j e. decode_calls lib j = Inl e \<longrightarrow> is_Exception e"
  shows "\<exists>w' tr'. run_continuous (downloader_ops lib srv cfg ds de) i n w tr = (Running, w', tr')
           \<and> sleeps tr' = sleeps tr + n \<and> cycles tr' = cycles tr + n"
proof (rule run_continuous_contained)
  fix s e s1
  assume "ros_run_once (downloader_ops lib srv cfg ds de) s = (Inl e, s1)"
  then have "run_once lib srv cfg ds de s = (Inl e, s1)"
    by (simp add: downloader_ops_def)
  from run_once_raise [OF this] assms show "is_Exception e"
    by auto
next
  fix j s
  show "fst (ros_sleep (downloader_ops lib srv cfg ds de) j s) = None"
    by (simp add: downloader_ops_def)
qed

text \<open>
  C4, as the code has it.  In the CloudPBX downloader an \<open>Exception\<close> raised by a cycle
  is caught inside the loop: the cycle counts as failed, the loop sleeps and goes on
  to the next cycle; as long as the cycles raise nothing but \<open>Exception\<close>s and the sleep
  is not interrupted, the loop is still running after any number of cycles, having
  slept after each one; so it is for the downloader's own \<open>run_once\<close> against any
  provider whose requests fail with nothing but \<open>Exception\<close>s.  In the Stranzit watcher the \<open>try\<close> is around the whole loop:
  an \<open>Exception\<close> raised by a cycle is logged and notified, and the loop ends without
  sleeping or running another cycle.
\<close>

theorem cycle_exceptions_contained:
  "((\<forall>s e s1. ros_run_once ops s = (Inl e, s1) \<longrightarrow> is_Exception e)
      \<and> (\<forall>j s. fst (ros_sleep ops j s) = None) \<longrightarrow>
      (\<exists>s' tr'. run_continuous ops i n s tr = (Running, s', tr')
           \<and> sleeps tr' = sleeps tr + n \<and> cycles tr' = cycles tr + n))
   \<and> (ros_run_once ops s = (Inl e, s1) \<and> is_Exception e \<and> ros_sleep ops i s1 = (None, s2) \<longrightarrow>
        run_continuous ops i (Suc n) s tr = run_continuous ops i n s2 (tr @ [Failed e, Slept i]))
   \<and> ((\<forall>h x. srv h = Raises x \<longrightarrow> is_Exception x)
      \<and> (\<forall>j x. decode_calls lib j = Inl x \<longrightarrow> is_Exception x) \<longrightarrow>
      (\<exists>w' tr'. run_continuous (downloader_ops lib srv cfg ds de) i n w tr3 = (Running, w', tr')
           \<and> sleeps tr' = sleeps tr3 + n \<and> cycles tr' = cycles tr3 + n))
   \<and> (\<not> should_shutdown_gracefully sops z
      \<and> \<not> 2 * free_bytes sops (perform_maintenance sops z) < 1024 ^ 3
      \<and> stz_run_once sops (perform_maintenance sops z) = (Inl e, z1) \<and> is_Exception e \<longrightarrow>
        stz_run_continuous sops i (Suc n) z tr2 = (Finished, z1, tr2 @ [Failed e, Notified e]))"
proof -
  have 4: "(\<forall>h x. srv h = Raises x \<longrightarrow> is_Exception x)
      \<and> (\<forall>j x. decode_calls lib j = Inl x \<longrightarrow> is_Exception x) \<longrightarrow>
      (\<exists>w' tr'. run_continuous (downloader_ops lib srv cfg ds de) i n w tr3 = (Running, w', tr')
           \<and> sleeps tr' = sleeps tr3 + n \<and> cycles tr' = cycles tr3 + n)"
    by (intro impI, elim conjE) (rule downloader_loop_contained)
  have 1: "(\<forall>s e s1. ros_run_once ops s = (Inl e, s1) \<longrightarrow> is_Exception e)
      \<and> (\<forall>j s. fst (ros_sleep ops j s) = None) \<longrightarrow>
      (\<exists>s' tr'. run_continuous ops i n s tr = (Running, s', tr')
           \<and> sleeps tr' = sleeps tr + n \<and> cycles tr' = cycles tr + n)"
  proof
    assume h: "(\<forall>s e s1. ros_run_once ops s = (Inl e, s1) \<longrightarrow> is_Exception e)
      \<and> (\<forall>j s. fst (ros_sleep ops j s) = None)"
    then have a: "\<And>s e s1. ros_run_once ops s = (Inl e, s1) \<Longrightarrow> is_Exception e"
      and b: "\<And>j s. fst (ros_sleep ops j s) = None"
      by blast+
    show "\<exists>s' tr'. run_continuous ops i n s tr = (Running, s', tr')
           \<and> sleeps tr' = sleeps tr + n \<and> cycles tr' = cycles tr + n"
      by (rule run_continuous_contained [OF a b])
  qed
  have 2: "ros_run_once ops s = (Inl e, s1) \<and> is_Exception e \<and> ros_sleep ops i s1 = (None, s2) \<longrightarrow>
        run_continuous ops i (Suc n) s tr = run_continuous ops i n s2 (tr @ [Failed e, Slept i])"
    by (intro impI, elim conjE) (rule run_continuous_failed_cycle)
  have 3: "\<not> should_shutdown_gracefully sops z
      \<and> \<not> 2 * free_bytes sops (perform_maintenance sops z) < 1024 ^ 3
      \<and> stz_run_once sops (perform_maintenance sops z) = (Inl e, z1) \<and> is_Exception e \<longrightarrow>
        stz_run_continuous sops i (Suc n) z tr2 = (Finished, z1, tr2 @ [Failed e, Notified e])"
    by (intro impI, elim conjE) (rule stz_exception_ends_loop)
  show ?thesis
    by (intro conjI; fact)
qed

text \<open>A downloader whose every other cycle raises: after four cycles it has slept
  four times and is still running.\<close>

theorem cycle_exceptions_contained_witness:
  "run_continuous demo_ros_ops 300 4 0 [] =
     (Running, 4,
      [Failed RequestException, Slept 300, Ran 1, Slept 300,
       Failed RequestException, Slept 300, Ran 1, Slept 300])
   \<and> sleeps (snd (snd (run_continuous demo_ros_ops 300 4 0 []))) = 4
   \<and> cycles (snd (snd (run_continuous demo_ros_ops 300 4 0 []))) = 4"
proof -
  have a: "\<forall>s e s1. ros_run_once demo_ros_ops s = (Inl e, s1) \<longrightarrow> is_Exception e"
    by (auto simp: demo_ros_ops_def split: if_splits)
  have b: "\<forall>j s. fst (ros_sleep demo_ros_ops j s) = None"
    by (simp add: demo_ros_ops_def)
  note th = cycle_exceptions_contained
              [where ops = demo_ros_ops and i = 300 and n = 4 and s = 0 and tr = "[]",
               THEN conjunct1, THEN mp, OF conjI [OF a b]]
  from th have c: "sleeps (snd (snd (run_continuous demo_ros_ops 300 4 0 []))) = 4
                 \<and> cycles (snd (snd (run_continuous demo_ros_ops 300 4 0 []))) = 4"
    by (auto simp: sleeps_def cycles_def)
  have e: "run_continuous demo_ros_ops 300 4 0 [] =
     (Running, 4,
      [Failed RequestException, Slept 300, Ran 1, Slept 300,
       Failed RequestException, Slept 300, Ran 1, Slept 300])"
    by code_simp
  from c e show ?thesis by blast
qed

text \<open>The claim as stated fails on the Stranzit watcher.  Its query is sent outside any
  handler, so a connection error comes out of the cycle; of the five cycles that were
  to run, the loop runs one, sends the notification and ends without a sleep.\<close>

theorem stranzit_loop_ends_counterexample:
  "fst (get_filtered_records demo_stzlib unreachable []
          (\<lparr> stz_username = Some ''user'', stz_is_authenticated = True \<rparr>, []))
     = Inl RequestException
   \<and> stz_run_continuous demo_stz_ops 300 (Suc 4) 0 [] =
       (Finished, 1, [Failed RequestException, Notified RequestException])
   \<and> sleeps [Failed RequestException, Notified RequestException] = 0"
proof -
  have g: "fst (get_filtered_records demo_stzlib unreachable []
          (\<lparr> stz_username = Some ''user'', stz_is_authenticated = True \<rparr>, []))
     = Inl RequestException"
    by (simp add: get_filtered_records_def unreachable_def Let_def)
  have a: "\<not> should_shutdown_gracefully demo_stz_ops 0"
    by (simp add: demo_stz_ops_def)
  have b: "\<not> 2 * free_bytes demo_stz_ops (perform_maintenance demo_stz_ops 0) < 1024 ^ 3"
    by (simp add: demo_stz_ops_def)
  have c: "stz_run_once demo_stz_ops (perform_maintenance demo_stz_ops 0) = (Inl RequestException, 1)"
    by (simp add: demo_stz_ops_def)
  have i: "is_Exception RequestException" by simp
  from stz_exception_ends_loop [OF a b c i, of 300 4 "[]"]
  have l: "stz_run_continuous demo_stz_ops 300 (Suc 4) 0 [] =
       (Finished, 1, [Failed RequestException, Notified RequestException])"
    by simp
  have s: "sleeps [Failed RequestException, Notified RequestException] = 0"
    by (simp add: sleeps_def)
  from g l s show ?thesis by blast
qed

section \<open>The restart ceiling\<close>



















end
